theory Spec2Isabelle
  imports Complex_Main
begin

section \<open>JavaScript values\<close>

text \<open>
  The repository holds four Express servers that share one in-memory store \<open>budgetData\<close>:
  \<^item> \<open>budget-tracker-pure-api.js\<close> (first file of that name), prefix \<open>pure\<close>;
  \<^item> the AI Budget Tracker API server (\<open>unnamed/part_000\<close>), prefix \<open>api\<close>;
  \<^item> the earlier AI Budget Tracker server (\<open>unnamed/part_002\<close>), prefix \<open>srv\<close>;
  \<^item> \<open>razorpay-render-deploy/server.js\<close>, prefix \<open>render\<close>.

  Modelling decisions that hold for the whole theory:
  \<^item> a JavaScript number is a \<open>js_number\<close>: a double given by its exact value, an infinity
    or NaN. Sums, differences, products and quotients are rounded to the nearest double,
    ties to even, as IEEE 754 prescribes (\<open>to_double\<close>), with overflow to an infinity and
    gradual underflow. The sign of a zero is not represented: a zero is the positive zero.
    The numbers of a request are doubles, as \<open>JSON.parse\<close> delivers them;
  \<^item> the \<open>amount\<close> of a payment confirmation is given by the number \<open>parseFloat(amount)\<close>
    yields, which is NaN for an absent or unparseable field; the numeric fields of a webhook
    payment are given by the numbers they convert to, NaN when absent; the \<open>amount\<close> of an
    order request is a finite number or absent;
  \<^item> an \<open>undefined\<close> text field is \<open>None\<close>;
  \<^item> an object used as a dictionary (\<open>budgetData.users\<close>, \<open>budgetData.budgets\<close>) is a map of
    its own properties, read through \<open>dict_get\<close>, which also finds the properties that every
    object inherits from \<open>Object.prototype\<close> (such as \<open>constructor\<close>);
  \<^item> the clock is an argument \<open>now\<close> (milliseconds, the value of \<open>Date.now()\<close>); all
    \<open>new Date()\<close> of one request read the same instant;
  \<^item> an exception is a value of \<open>js_error\<close>; every handler catches it and answers 500;
  \<^item> logging and the snapshot written by \<open>saveData\<close> have no effect on \<open>budgetData\<close> and are
    left out; writing the snapshot is taken to succeed.
\<close>

datatype js_error = TypeError | RangeError | GatewayError

text \<open>\<open>!x\<close> is false exactly for a present, non-empty string.\<close>

definition truthy :: "string option \<Rightarrow> bool" where
  "truthy x = (case x of None \<Rightarrow> False | Some s \<Rightarrow> s \<noteq> [])"

text \<open>\<open>x || d\<close> on strings.\<close>

definition or_else :: "string option \<Rightarrow> string \<Rightarrow> string" where
  "or_else x d = (case x of None \<Rightarrow> d | Some s \<Rightarrow> if s = [] then d else s)"

text \<open>String concatenation and property keys coerce \<open>undefined\<close> to the text \<open>undefined\<close>.\<close>

definition js_string :: "string option \<Rightarrow> string" where
  "js_string x = (case x of None \<Rightarrow> ''undefined'' | Some s \<Rightarrow> s)"

text \<open>\<open>n.toString()\<close> for a non-negative integer, and \<open>s.slice(-k)\<close>.\<close>

definition digits :: string where
  "digits = ''0123456789''"

fun toString :: "nat \<Rightarrow> string" where
  "toString n = (if n < 10 then [digits ! n]
                 else toString (n div 10) @ [digits ! (n mod 10)])"

declare toString.simps [simp del]

definition slice_last :: "nat \<Rightarrow> string \<Rightarrow> string" where
  "slice_last k s = drop (length s - k) s"

subsection \<open>Numbers\<close>

datatype js_number = Finite rat | PosInfinity | NegInfinity | NaN

text \<open>
  The binary exponent of a positive rational: \<open>halvings a\<close> is the \<open>e\<close> with
  \<open>2^e \<le> a < 2^(e+1)\<close> for \<open>a \<ge> 1\<close>, and \<open>doublings a\<close> is the \<open>k\<close> with
  \<open>2^(-k) \<le> a < 2^(1-k)\<close> for \<open>0 < a < 1\<close>.
\<close>

function halvings :: "rat \<Rightarrow> nat" where
  "halvings a = (if 2 \<le> a then Suc (halvings (a / 2)) else 0)"
  by pat_completeness auto

termination halvings
proof (relation "measure (\<lambda>a. nat \<lfloor>a\<rfloor>)")
  show "wf (measure (\<lambda>a. nat \<lfloor>a::rat\<rfloor>))" by simp
next
  fix a :: rat
  assume a: "2 \<le> a"
  then have "2 \<le> \<lfloor>a\<rfloor>" by simp
  then have "(2::rat) \<le> of_int \<lfloor>a\<rfloor>" by linarith
  moreover have "a < of_int \<lfloor>a\<rfloor> + 1" by linarith
  ultimately have "a / 2 < of_int \<lfloor>a\<rfloor>" by linarith
  then have "\<lfloor>a / 2\<rfloor> < \<lfloor>a\<rfloor>" by (simp add: floor_less_iff)
  moreover have "0 < \<lfloor>a\<rfloor>" using a by simp
  ultimately show "(a / 2, a) \<in> measure (\<lambda>a. nat \<lfloor>a\<rfloor>)" by simp
qed

function doublings :: "rat \<Rightarrow> nat" where
  "doublings a = (if 0 < a \<and> a < 1 then Suc (doublings (a * 2)) else 0)"
  by pat_completeness auto

termination doublings
proof (relation "measure (\<lambda>a. nat \<lfloor>1 / a\<rfloor>)")
  show "wf (measure (\<lambda>a. nat \<lfloor>1 / (a::rat)\<rfloor>))" by simp
next
  fix a :: rat
  assume a: "0 < a \<and> a < 1"
  define y where "y = 1 / a"
  have b: "1 \<le> y" using a by (simp add: y_def)
  then have "1 \<le> \<lfloor>y\<rfloor>" by simp
  then have "(1::rat) \<le> of_int \<lfloor>y\<rfloor>" by linarith
  moreover have "y < of_int \<lfloor>y\<rfloor> + 1" by linarith
  ultimately have "y / 2 < of_int \<lfloor>y\<rfloor>" by linarith
  then have "\<lfloor>y / 2\<rfloor> < \<lfloor>y\<rfloor>" by (simp add: floor_less_iff)
  moreover have "0 < \<lfloor>y\<rfloor>" using b by simp
  ultimately have lt: "nat \<lfloor>y / 2\<rfloor> < nat \<lfloor>y\<rfloor>" by linarith
  have eq: "1 / (a * 2) = y / 2" by (simp add: y_def)
  show "(a * 2, a) \<in> measure (\<lambda>a. nat \<lfloor>1 / a\<rfloor>)"
    unfolding in_measure eq y_def [symmetric] by (rule lt)
qed

declare halvings.simps [simp del] doublings.simps [simp del]

definition pow2 :: "int \<Rightarrow> rat" where
  "pow2 e = (if 0 \<le> e then 2 ^ nat e else 1 / 2 ^ nat (- e))"

text \<open>The nearest integer, the even one of two that are equally near.\<close>

definition round_half_even :: "rat \<Rightarrow> int" where
  "round_half_even y =
     (if y - of_int \<lfloor>y\<rfloor> < 1 / 2 then \<lfloor>y\<rfloor>
      else if 1 / 2 < y - of_int \<lfloor>y\<rfloor> then \<lfloor>y\<rfloor> + 1
      else if even \<lfloor>y\<rfloor> then \<lfloor>y\<rfloor> else \<lfloor>y\<rfloor> + 1)"

text \<open>
  The exponent of the binade of a double of magnitude \<open>a\<close>; below \<open>2^(-1022)\<close> the doubles
  are subnormal and keep the exponent \<open>-1022\<close>.
\<close>

definition exponent :: "rat \<Rightarrow> int" where
  "exponent a =
     (if a < pow2 (- 1022) then - 1022
      else if 1 \<le> a then int (halvings a) else - int (doublings a))"

text \<open>
  The Number value for a real \<open>x\<close>: the magnitude is rounded to a multiple of the spacing
  \<open>2^(e - 52)\<close> of its binade, and a result of \<open>2^1024\<close> or more is an infinity.
\<close>

definition to_double :: "rat \<Rightarrow> js_number" where
  "to_double x =
     (let q = pow2 (exponent \<bar>x\<bar> - 52);
          r = of_int (round_half_even (\<bar>x\<bar> / q)) * q
      in if pow2 1024 \<le> r then (if 0 < x then PosInfinity else NegInfinity)
         else Finite (if x < 0 then - r else r))"

text \<open>The operators \<open>+\<close>, unary \<open>-\<close>, \<open>-\<close>, \<open>*\<close> and \<open>/\<close> on Numbers.\<close>

fun js_add :: "js_number \<Rightarrow> js_number \<Rightarrow> js_number" where
  "js_add (Finite x) (Finite y) = to_double (x + y)"
| "js_add NaN b = NaN"
| "js_add a NaN = NaN"
| "js_add PosInfinity NegInfinity = NaN"
| "js_add NegInfinity PosInfinity = NaN"
| "js_add PosInfinity b = PosInfinity"
| "js_add a PosInfinity = PosInfinity"
| "js_add NegInfinity b = NegInfinity"
| "js_add a NegInfinity = NegInfinity"

fun js_neg :: "js_number \<Rightarrow> js_number" where
  "js_neg (Finite x) = Finite (- x)"
| "js_neg PosInfinity = NegInfinity"
| "js_neg NegInfinity = PosInfinity"
| "js_neg NaN = NaN"

definition js_sub :: "js_number \<Rightarrow> js_number \<Rightarrow> js_number" where
  "js_sub a b = js_add a (js_neg b)"

text \<open>The sign of a number that is not NaN, where a zero counts as positive.\<close>

fun negative :: "js_number \<Rightarrow> bool" where
  "negative (Finite x) = (x < 0)"
| "negative PosInfinity = False"
| "negative NegInfinity = True"
| "negative NaN = False"

definition signed_infinity :: "bool \<Rightarrow> js_number" where
  "signed_infinity neg = (if neg then NegInfinity else PosInfinity)"

fun js_mul :: "js_number \<Rightarrow> js_number \<Rightarrow> js_number" where
  "js_mul (Finite x) (Finite y) = to_double (x * y)"
| "js_mul NaN b = NaN"
| "js_mul a NaN = NaN"
| "js_mul a b = (if a = Finite 0 \<or> b = Finite 0 then NaN
                 else signed_infinity (negative a \<noteq> negative b))"

fun js_div :: "js_number \<Rightarrow> js_number \<Rightarrow> js_number" where
  "js_div (Finite x) (Finite y) =
     (if y \<noteq> 0 then to_double (x / y)
      else if x = 0 then NaN else signed_infinity (x < 0))"
| "js_div NaN b = NaN"
| "js_div a NaN = NaN"
| "js_div (Finite x) b = Finite 0"
| "js_div a (Finite y) = signed_infinity (negative a \<noteq> (y < 0))"
| "js_div a b = NaN"

text \<open>
  The comparisons \<open>a > c\<close>, \<open>a >= c\<close> with a finite \<open>c\<close>, which are false for NaN, and strict
  equality \<open>a === b\<close>, which NaN does not satisfy even with itself.
\<close>

fun js_gt :: "js_number \<Rightarrow> rat \<Rightarrow> bool" where
  "js_gt (Finite x) c = (x > c)"
| "js_gt PosInfinity c = True"
| "js_gt NegInfinity c = False"
| "js_gt NaN c = False"

fun js_ge :: "js_number \<Rightarrow> rat \<Rightarrow> bool" where
  "js_ge (Finite x) c = (x \<ge> c)"
| "js_ge PosInfinity c = True"
| "js_ge NegInfinity c = False"
| "js_ge NaN c = False"

definition js_eq :: "js_number \<Rightarrow> js_number \<Rightarrow> bool" where
  "js_eq a b = (a = b \<and> a \<noteq> NaN)"

text \<open>\<open>parseFloat(amount) || 0\<close>: NaN and 0 both give 0.\<close>

definition parseFloat_or_0 :: "js_number \<Rightarrow> js_number" where
  "parseFloat_or_0 a = (if a = NaN \<or> a = Finite 0 then Finite 0 else a)"

text \<open>\<open>Math.round\<close> rounds halves towards plus infinity.\<close>

fun Math_round :: "js_number \<Rightarrow> js_number" where
  "Math_round (Finite x) = Finite (of_int \<lfloor>x + 1 / 2\<rfloor>)"
| "Math_round a = a"

text \<open>
  \<open>x.toFixed(2)\<close>, read back as a number: the nearest multiple of 1/100 to the exact value
  of the double, halves away from zero (the sign is split off first, then the larger
  candidate is taken). From \<open>10^21\<close> on, and for NaN and the infinities, the text is that of
  the number itself.
\<close>

definition toFixed2 :: "rat \<Rightarrow> rat" where
  "toFixed2 x = (if x < 0 then - (of_int \<lfloor>- x * 100 + 1 / 2\<rfloor> / 100)
                 else of_int \<lfloor>x * 100 + 1 / 2\<rfloor> / 100)"

fun Number_toFixed2 :: "js_number \<Rightarrow> js_number" where
  "Number_toFixed2 (Finite x) =
     (if \<bar>x\<bar> < 1000000000000000000000 then Finite (toFixed2 x) else Finite x)"
| "Number_toFixed2 a = a"

subsection \<open>Dictionaries\<close>

text \<open>
  The property names that a plain object inherits from \<open>Object.prototype\<close>. Reading one
  of them from an object that has no own property of that name gives a function (the
  prototype object for \<open>__proto__\<close>), which is truthy and has no \<open>transactions\<close>.
\<close>

definition inherited :: "string \<Rightarrow> bool" where
  "inherited k = (k \<in> set [''constructor'', ''toString'', ''valueOf'', ''toLocaleString'',
     ''hasOwnProperty'', ''isPrototypeOf'', ''propertyIsEnumerable'', ''__proto__'',
     ''__defineGetter__'', ''__defineSetter__'', ''__lookupGetter__'', ''__lookupSetter__''])"

datatype 'a property = Absent | Inherited | Own 'a

definition dict_get :: "(string \<rightharpoonup> 'a) \<Rightarrow> string \<Rightarrow> 'a property" where
  "dict_get obj k =
     (case obj k of Some v \<Rightarrow> Own v | None \<Rightarrow> if inherited k then Inherited else Absent)"

section \<open>The data model\<close>

datatype tx_status = Pending | Success | Captured | Failed

record transaction =
  tx_id :: "string option"
  orderId :: "string option"
  amount :: js_number
  category :: string
  description :: string
  date :: string
  status :: tx_status
  verified :: "bool option"
  tx_method :: "string option"

text \<open>An entry of \<open>budgetData.payments\<close> is \<open>{ ...transaction, userId }\<close>.\<close>

record payment_log = transaction +
  userId :: "string option"

record user =
  user_id :: "string option"
  name :: "string option"
  email :: "string option"
  totalSpent :: js_number
  transactions :: "transaction list"
  createdAt :: "string option"
  lastActive :: "string option"

text \<open>
  A budget, without its per-category limits, which no handler reads; \<open>stamp\<close> is its
  \<open>createdAt\<close> or \<open>updatedAt\<close>.
\<close>

record budget =
  monthly :: js_number
  alerts :: "bool option"
  stamp :: "string option"

record analytics =
  totalUsers :: nat
  totalTransactions :: nat
  totalAmount :: js_number

record budgetData =
  users :: "string \<rightharpoonup> user"
  payments :: "payment_log list"
  budgets :: "string \<rightharpoonup> budget"
  analytics :: analytics

text \<open>The store a server starts with when no snapshot is loaded.\<close>

definition budgetData0 :: budgetData where
  "budgetData0 = \<lparr>users = Map.empty, payments = [], budgets = Map.empty,
     analytics = \<lparr>totalUsers = 0, totalTransactions = 0, totalAmount = Finite 0\<rparr>\<rparr>"

subsection \<open>Requests, gateway objects and responses\<close>

text \<open>The body of \<open>verify-payment\<close>; \<open>v_amount\<close> is the value of \<open>parseFloat(amount)\<close>.\<close>

record verify_req =
  razorpay_order_id :: "string option"
  razorpay_payment_id :: "string option"
  razorpay_signature :: "string option"
  v_userId :: "string option"
  v_amount :: js_number
  v_category :: "string option"
  v_description :: "string option"

record order_req =
  o_amount :: "rat option"
  o_userId :: "string option"
  o_category :: "string option"
  o_description :: "string option"
  o_currency :: "string option"

record pay_notes =
  n_userId :: "string option"
  n_category :: "string option"
  n_description :: "string option"

text \<open>
  The payment of a webhook event; \<open>p_amount\<close> and \<open>p_created_at\<close> are the numbers the
  fields convert to in \<open>payment.amount / 100\<close> and \<open>payment.created_at * 1000\<close>.
\<close>

record payment_entity =
  p_id :: "string option"
  p_order_id :: "string option"
  p_amount :: js_number
  p_notes :: "pay_notes option"
  p_created_at :: js_number

record order_entity =
  ord_id :: string

text \<open>\<open>payload.payment\<close> and \<open>payload.order\<close> wrap their object in a field \<open>entity\<close>.\<close>

record 'a wrapped =
  entity :: "'a option"

record payload =
  payment :: "payment_entity wrapped option"
  order :: "order_entity wrapped option"

record webhook_body =
  event :: "string option"
  payload :: "payload option"

record webhook_req =
  x_razorpay_signature :: "string option"
  body :: webhook_body

record order_options =
  oo_amount :: js_number
  oo_currency :: string
  oo_receipt :: string
  oo_payment_capture :: nat
  oo_notes :: "(string \<times> string \<times> string \<times> string) option"

record gateway_order =
  go_id :: string
  go_receipt :: string
  go_created_at :: int

record order_created =
  oc_orderId :: string
  oc_amount :: rat
  oc_currency :: string
  oc_key :: "string option"
  oc_userId :: string
  oc_category :: "string option"
  oc_description :: "string option"
  oc_receipt :: "string option"
  oc_created_at :: "int option"

text \<open>
  \<open>Ok200 b\<close> is \<open>res.json(b)\<close> (or \<open>res.status(200)...\<close>); \<open>Error c msg\<close> is
  \<open>res.status(c)\<close> with the error text \<open>msg\<close>.
\<close>

datatype 'a response = Ok200 'a | Error nat string

fun is_error :: "'a response \<Rightarrow> bool" where
  "is_error (Ok200 b) = False"
| "is_error (Error c msg) = True"

text \<open>
  What the servers read from their surroundings: the credentials, the webhook secret of
  the process environment, HMAC-SHA256 with a hexadecimal digest (key first), the text
  \<open>JSON.stringify\<close> gives for a webhook body, \<open>Date.prototype.toISOString\<close> on a valid time
  value and the payment gateway's \<open>orders.create\<close>.
\<close>

record env =
  RAZORPAY_KEY_ID :: "string option"
  RAZORPAY_KEY_SECRET :: "string option"
  RAZORPAY_WEBHOOK_SECRET :: "string option"
  hmac_sha256 :: "string \<Rightarrow> string \<Rightarrow> string"
  stringify :: "webhook_body \<Rightarrow> string"
  toISOString :: "int \<Rightarrow> string"
  orders_create :: "order_options \<Rightarrow> js_error + gateway_order"

text \<open>\<open>crypto.createHmac('sha256', key).update(msg).digest('hex')\<close>; an undefined key throws.\<close>

definition createHmac :: "env \<Rightarrow> string option \<Rightarrow> string \<Rightarrow> js_error + string" where
  "createHmac env key msg =
     (case key of None \<Rightarrow> Inl TypeError | Some k \<Rightarrow> Inr (hmac_sha256 env k msg))"

text \<open>
  \<open>new Date(t)\<close> has the time value \<open>t\<close> without its fraction, and none when \<open>t\<close> is not
  finite or beyond 8.64e15 milliseconds; \<open>toISOString()\<close> then throws a RangeError.
\<close>

fun time_clip :: "js_number \<Rightarrow> int option" where
  "time_clip (Finite ms) =
     (if \<bar>ms\<bar> \<le> 8640000000000000 then Some (if ms < 0 then - \<lfloor>- ms\<rfloor> else \<lfloor>ms\<rfloor>)
      else None)"
| "time_clip PosInfinity = None"
| "time_clip NegInfinity = None"
| "time_clip NaN = None"

definition Date_toISOString :: "env \<Rightarrow> js_number \<Rightarrow> js_error + string" where
  "Date_toISOString env t =
     (case time_clip t of None \<Rightarrow> Inl RangeError | Some tv \<Rightarrow> Inr (toISOString env tv))"

text \<open>\<open>new Date().toISOString()\<close> at the instant \<open>now\<close>.\<close>

definition now_iso :: "env \<Rightarrow> nat \<Rightarrow> string" where
  "now_iso env now = toISOString env (int now)"

section \<open>Objects as ordered dictionaries\<close>

text \<open>
  \<open>Object.entries\<close> lists the own keys of an object with the array indices first, in
  ascending numeric order, and then the other strings in the order of their creation.
  An array index is the canonical decimal text of a number below \<open>2^32 - 1\<close>.
\<close>

definition is_digit :: "char \<Rightarrow> bool" where
  "is_digit c = (c \<in> set digits)"

definition digit_value :: "char \<Rightarrow> nat" where
  "digit_value c = length (takeWhile (\<lambda>d. d \<noteq> c) digits)"

definition decimal_value :: "string \<Rightarrow> nat" where
  "decimal_value s = foldl (\<lambda>n c. 10 * n + digit_value c) 0 s"

definition array_index :: "string \<Rightarrow> nat option" where
  "array_index s =
     (if s \<noteq> [] \<and> list_all is_digit s \<and> (s = ''0'' \<or> hd s \<noteq> CHR ''0'')
         \<and> decimal_value s < 4294967295
      then Some (decimal_value s) else None)"

fun obj_insert :: "string \<Rightarrow> 'a \<Rightarrow> (string \<times> 'a) list \<Rightarrow> (string \<times> 'a) list" where
  "obj_insert k v [] = [(k, v)]"
| "obj_insert k v ((k', v') # kvs) =
     (case array_index k of
        None \<Rightarrow> (k', v') # obj_insert k v kvs
      | Some i \<Rightarrow>
          (case array_index k' of
             None \<Rightarrow> (k, v) # (k', v') # kvs
           | Some j \<Rightarrow> if j < i then (k', v') # obj_insert k v kvs
                       else (k, v) # (k', v') # kvs))"

text \<open>\<open>obj[k] = v\<close>: an existing key keeps its place.\<close>

definition obj_set :: "string \<Rightarrow> 'a \<Rightarrow> (string \<times> 'a) list \<Rightarrow> (string \<times> 'a) list" where
  "obj_set k v kvs =
     (if k \<in> fst ` set kvs then map (\<lambda>(k', v'). if k' = k then (k', v) else (k', v')) kvs
      else obj_insert k v kvs)"

section \<open>The budget analyzers\<close>

text \<open>
  \<open>budgetData.users[userId] || { totalSpent: 0, transactions: [] }\<close>: the transactions and
  the running total of a user id, where an unknown user has none; and the monthly limit of
  \<open>budgetData.budgets[userId] || { monthly: 10000 }\<close>, where an inherited property has no
  \<open>monthly\<close> and \<open>undefined\<close> converts to NaN.
\<close>

definition txs_of :: "budgetData \<Rightarrow> string \<Rightarrow> transaction list" where
  "txs_of st uid = (case users st uid of None \<Rightarrow> [] | Some u \<Rightarrow> transactions u)"

definition spent_of :: "budgetData \<Rightarrow> string \<Rightarrow> js_number" where
  "spent_of st uid = (case users st uid of None \<Rightarrow> Finite 0 | Some u \<Rightarrow> totalSpent u)"

definition limit_of :: "budgetData \<Rightarrow> string \<Rightarrow> js_number" where
  "limit_of st uid =
     (case dict_get (budgets st) uid of
        Own b \<Rightarrow> monthly b | Inherited \<Rightarrow> NaN | Absent \<Rightarrow> Finite 10000)"

subsection \<open>The API server (\<open>part_000\<close>)\<close>

text \<open>
  The loop of \<open>getCategoryBreakdown\<close> that adds the amounts up by category. The category
  names are taken not to be names inherited from \<open>Object.prototype\<close>, for which the entry
  would become a text.
\<close>

definition add_category ::
    "(string \<times> js_number) list \<Rightarrow> transaction \<Rightarrow> (string \<times> js_number) list" where
  "add_category categories t =
     (let cat = (if category t = [] then ''Other'' else category t);
          old = (case map_of categories cat of
                   None \<Rightarrow> Finite 0
                 | Some a \<Rightarrow> if a = NaN \<or> a = Finite 0 then Finite 0 else a)
      in obj_set cat (js_add old (amount t)) categories)"

definition category_totals :: "transaction list \<Rightarrow> (string \<times> js_number) list" where
  "category_totals txs = foldl add_category [] txs"

text \<open>
  \<open>.sort(([,a], [,b]) => b - a)\<close>: the sort is stable, and an entry goes behind another
  one only if \<open>b - a\<close> is positive for them. When an amount is NaN the comparison is not
  consistent and the language leaves the order to the engine; the order given here is
  then that of this insertion sort.
\<close>

fun insert_desc ::
    "string \<times> js_number \<Rightarrow> (string \<times> js_number) list \<Rightarrow> (string \<times> js_number) list" where
  "insert_desc x [] = [x]"
| "insert_desc x (y # ys) =
     (if js_gt (js_sub (snd y) (snd x)) 0 then y # insert_desc x ys else x # y # ys)"

definition sort_desc :: "(string \<times> js_number) list \<Rightarrow> (string \<times> js_number) list" where
  "sort_desc kvs = foldr insert_desc kvs []"

text \<open>
  The sorted entries are written to a new object. The percentage is computed only when
  \<open>categories.total\<close> is truthy, that is when a category named \<open>total\<close> has an amount other
  than 0 and NaN.
\<close>

definition api_getCategoryBreakdown ::
    "transaction list \<Rightarrow> (string \<times> js_number \<times> js_number) list" where
  "api_getCategoryBreakdown txs =
     (let categories = category_totals txs;
          sorted = sort_desc categories
      in foldl (\<lambda>obj (k, v).
           obj_set k (v,
             (case map_of categories ''total'' of
                None \<Rightarrow> Finite 0
              | Some t \<Rightarrow>
                  if t = NaN \<or> t = Finite 0 then Finite 0
                  else Number_toFixed2
                         (js_mul (js_div v (foldl js_add (Finite 0) (map snd categories)))
                            (Finite 100)))) obj)
         [] sorted)"

text \<open>
  The analysis object of \<open>analyzeBudget\<close>, without \<open>monthlyProjection\<close> (which depends on the
  calendar only). The recommendation texts are given without their leading pictograph.
  \<open>spendingPercentage\<close> is the number that the text made by \<open>toFixed(2)\<close> denotes, the one
  that \<open>parseFloat\<close> reads back for the assessment.
\<close>

record analysis =
  a_userId :: string
  currentSpent :: js_number
  budgetLimit :: js_number
  remainingBudget :: js_number
  spendingPercentage :: js_number
  analysis_status :: string
  riskLevel :: string
  aiRecommendation :: string
  categoryBreakdown :: "(string \<times> js_number \<times> js_number) list"
  lastUpdated :: string

text \<open>
  \<open>budget.monthly > 0 ? ((user.totalSpent / budget.monthly) * 100).toFixed(2) : 0\<close>
\<close>

definition api_spendingPercentage :: "js_number \<Rightarrow> js_number \<Rightarrow> js_number" where
  "api_spendingPercentage spent limit =
     (if js_gt limit 0 then Number_toFixed2 (js_mul (js_div spent limit) (Finite 100))
      else Finite 0)"

text \<open>The risk assessment of \<open>analyzeBudget\<close>: status, risk level and recommendation.\<close>

definition api_assess :: "js_number \<Rightarrow> string \<times> string \<times> string" where
  "api_assess percentage =
     (if js_ge percentage 100 then
        (''over_budget'', ''critical'',
         ''CRITICAL: Budget exceeded! Immediate action required. Consider emergency savings or expense cuts.'')
      else if js_ge percentage 90 then
        (''critical'', ''high'',
         ''HIGH RISK: 90%+ budget used. Stop discretionary spending immediately.'')
      else if js_ge percentage 75 then
        (''warning'', ''medium'',
         ''MEDIUM RISK: 75% budget used. Start reducing expenses and track daily.'')
      else if js_ge percentage 50 then
        (''moderate'', ''low'',
         ''ON TRACK: Good spending pace. Continue monitoring regularly.'')
      else
        (''excellent'', ''very_low'',
         ''EXCELLENT: Well within budget. Consider increasing savings or investments.''))"

text \<open>The object that \<open>analyzeBudget\<close> builds and returns.\<close>

definition api_analysis :: "env \<Rightarrow> nat \<Rightarrow> budgetData \<Rightarrow> string \<Rightarrow> analysis" where
  "api_analysis env now st uid =
     (let spent = spent_of st uid;
          txs = txs_of st uid;
          limit = limit_of st uid;
          percentage = api_spendingPercentage spent limit;
          (st_text, risk, recommendation) = api_assess percentage
      in \<lparr>a_userId = uid, currentSpent = spent, budgetLimit = limit,
          remainingBudget = js_sub limit spent, spendingPercentage = percentage,
          analysis_status = st_text, riskLevel = risk, aiRecommendation = recommendation,
          categoryBreakdown = api_getCategoryBreakdown txs,
          lastUpdated = now_iso env now\<rparr>)"

text \<open>
  \<open>analyzeBudget(userId)\<close>: for an inherited property in the place of the user,
  \<open>user.transactions\<close> is undefined and \<open>getCategoryBreakdown\<close> throws.
\<close>

definition api_analyzeBudget ::
    "env \<Rightarrow> nat \<Rightarrow> budgetData \<Rightarrow> string \<Rightarrow> js_error + analysis" where
  "api_analyzeBudget env now st uid =
     (case dict_get (users st) uid of
        Inherited \<Rightarrow> Inl TypeError
      | Absent \<Rightarrow> Inr (api_analysis env now st uid)
      | Own u \<Rightarrow> Inr (api_analysis env now st uid))"

subsection \<open>The earlier server (\<open>part_002\<close>)\<close>

text \<open>Here \<open>getCategoryBreakdown\<close> returns the sums by category as they are.\<close>

definition srv_getCategoryBreakdown :: "transaction list \<Rightarrow> (string \<times> js_number) list" where
  "srv_getCategoryBreakdown txs = category_totals txs"

record srv_analysis =
  s_currentSpent :: js_number
  s_budgetLimit :: js_number
  s_remainingBudget :: js_number
  s_spendingPercentage :: js_number
  s_status :: string
  s_aiRecommendation :: string
  s_categoryBreakdown :: "(string \<times> js_number) list"

text \<open>The division is not guarded here, and the thresholds are strict.\<close>

definition srv_assess :: "js_number \<Rightarrow> string \<times> string" where
  "srv_assess percentage =
     (if js_gt percentage 90 then
        (''critical'',
         ''Critical: You've exceeded 90% of your budget! Consider reducing expenses immediately.'')
      else if js_gt percentage 75 then
        (''warning'',
         ''Warning: You're at 75% of your budget. Start monitoring expenses closely.'')
      else if js_gt percentage 50 then
        (''moderate'', ''Moderate: Good spending pace. Keep tracking your expenses.'')
      else
        (''good'', ''Excellent: You're well within budget. Great financial discipline!''))"

definition srv_analysis :: "budgetData \<Rightarrow> string \<Rightarrow> srv_analysis" where
  "srv_analysis st uid =
     (let spent = spent_of st uid;
          txs = txs_of st uid;
          limit = limit_of st uid;
          percentage = Number_toFixed2 (js_mul (js_div spent limit) (Finite 100));
          (st_text, recommendation) = srv_assess percentage
      in \<lparr>s_currentSpent = spent, s_budgetLimit = limit,
          s_remainingBudget = js_sub limit spent,
          s_spendingPercentage = percentage, s_status = st_text,
          s_aiRecommendation = recommendation,
          s_categoryBreakdown = srv_getCategoryBreakdown txs\<rparr>)"

definition srv_analyzeBudget :: "budgetData \<Rightarrow> string \<Rightarrow> js_error + srv_analysis" where
  "srv_analyzeBudget st uid =
     (case dict_get (users st) uid of
        Inherited \<Rightarrow> Inl TypeError
      | Absent \<Rightarrow> Inr (srv_analysis st uid)
      | Own u \<Rightarrow> Inr (srv_analysis st uid))"

section \<open>The pure API server (\<open>budget-tracker-pure-api.js\<close>)\<close>

text \<open>The user that \<open>POST /api/create-order\<close> and \<open>POST /api/verify-payment\<close> create.\<close>

definition pure_new_user :: "env \<Rightarrow> nat \<Rightarrow> string \<Rightarrow> user" where
  "pure_new_user env now uid =
     \<lparr>user_id = Some uid, name = Some (''User '' @ uid), email = Some (uid @ ''@example.com''),
      totalSpent = Finite 0, transactions = [], createdAt = Some (now_iso env now),
      lastActive = Some (now_iso env now)\<rparr>"

definition pure_create_order ::
    "env \<Rightarrow> nat \<Rightarrow> budgetData \<Rightarrow> order_req \<Rightarrow> order_created response \<times> budgetData" where
  "pure_create_order env now st req =
     (case o_amount req of
        None \<Rightarrow> (Error 400 ''Valid amount is required'', st)
      | Some amt \<Rightarrow>
          if amt = 0 \<or> amt \<le> 0 then (Error 400 ''Valid amount is required'', st)
          else if \<not> truthy (o_userId req) then (Error 400 ''Valid userId is required'', st)
          else
            let uid = js_string (o_userId req);
                st1 = (if dict_get (users st) uid = Absent
                       then st\<lparr>users := (users st)(uid \<mapsto> pure_new_user env now uid),
                               budgets := (budgets st)(uid \<mapsto>
                                 \<lparr>monthly = Finite 10000, alerts = Some True,
                                  stamp = Some (now_iso env now)\<rparr>)\<rparr>
                       else st);
                currency = (case o_currency req of None \<Rightarrow> ''INR'' | Some c \<Rightarrow> c);
                shortTimestamp = slice_last 8 (toString now);
                shortUserId = slice_last 10 uid;
                orderOptions =
                  \<lparr>oo_amount = Math_round (js_mul (Finite amt) (Finite 100)),
                   oo_currency = currency,
                   oo_receipt = ''rcpt_'' @ shortUserId @ ''_'' @ shortTimestamp,
                   oo_payment_capture = 1,
                   oo_notes = Some (uid, or_else (o_category req) ''Other'',
                     or_else (o_description req) ''Budget payment'', ''budget_tracker_api'')\<rparr>
            in (case orders_create env orderOptions of
                  Inl e \<Rightarrow> (Error 500 ''Failed to create payment order'', st1)
                | Inr ord \<Rightarrow>
                    (Ok200 \<lparr>oc_orderId = go_id ord, oc_amount = amt, oc_currency = currency,
                       oc_key = RAZORPAY_KEY_ID env, oc_userId = uid,
                       oc_category = o_category req, oc_description = o_description req,
                       oc_receipt = Some (go_receipt ord),
                       oc_created_at = Some (go_created_at ord)\<rparr>, st1)))"

text \<open>
  \<open>POST /api/verify-payment\<close>. The body of a success is the transaction and the summary
  \<open>{id, totalSpent, transactionCount}\<close> of the user. Where \<open>budgetData.users[userId]\<close> is an
  inherited property, \<open>user.transactions.push\<close> throws before the store is written.
\<close>

definition pure_verify_payment ::
    "env \<Rightarrow> nat \<Rightarrow> budgetData \<Rightarrow> verify_req
      \<Rightarrow> (transaction \<times> string \<times> js_number \<times> nat) response \<times> budgetData" where
  "pure_verify_payment env now st req =
     (if \<not> truthy (razorpay_order_id req) \<or> \<not> truthy (razorpay_payment_id req)
         \<or> \<not> truthy (razorpay_signature req)
      then (Error 400 ''Missing required payment verification data'', st)
      else if \<not> truthy (v_userId req)
      then (Error 400 ''UserId is required for payment verification'', st)
      else
        case createHmac env (RAZORPAY_KEY_SECRET env)
               (js_string (razorpay_order_id req) @ ''|'' @ js_string (razorpay_payment_id req)) of
          Inl e \<Rightarrow> (Error 500 ''Internal server error during payment verification'', st)
        | Inr generated_signature \<Rightarrow>
            if Some generated_signature \<noteq> razorpay_signature req
            then (Error 400 ''Payment verification failed - Invalid signature'', st)
            else
              let uid = js_string (v_userId req)
              in if dict_get (users st) uid = Inherited
                 then (Error 500 ''Internal server error during payment verification'', st)
                 else
                   let usr = (case users st uid of
                                Some u \<Rightarrow> u | None \<Rightarrow> pure_new_user env now uid);
                       paymentAmount = parseFloat_or_0 (v_amount req);
                       tx = \<lparr>tx_id = razorpay_payment_id req,
                             orderId = razorpay_order_id req, amount = paymentAmount,
                             category = or_else (v_category req) ''Other'',
                             description = or_else (v_description req) ''Payment'',
                             date = now_iso env now, status = Success, verified = Some True,
                             tx_method = Some ''razorpay''\<rparr>;
                       usr' = usr\<lparr>totalSpent := js_add (totalSpent usr) paymentAmount,
                                  transactions := transactions usr @ [tx],
                                  lastActive := Some (now_iso env now)\<rparr>;
                       st' = st\<lparr>users := (users st)(uid \<mapsto> usr'),
                                payments := payments st @
                                  [transaction.extend tx \<lparr>userId = Some uid\<rparr>],
                                analytics := (analytics st)
                                  \<lparr>totalTransactions := totalTransactions (analytics st) + 1,
                                   totalAmount :=
                                     js_add (totalAmount (analytics st)) paymentAmount\<rparr>\<rparr>
                   in (Ok200 (tx, uid, totalSpent usr', length (transactions usr')), st'))"

text \<open>
  \<open>POST /api/webhook\<close>. The signature is compared only when a webhook secret other than the
  placeholder is configured; the handler reads the event and answers.
\<close>

definition webhook_secret :: "env \<Rightarrow> string" where
  "webhook_secret env = or_else (RAZORPAY_WEBHOOK_SECRET env) ''your_webhook_secret''"

definition pure_webhook ::
    "env \<Rightarrow> budgetData \<Rightarrow> webhook_req \<Rightarrow> string option response \<times> budgetData" where
  "pure_webhook env st req =
     (let signature = x_razorpay_signature req;
          webhookSecret = webhook_secret env
      in if webhookSecret \<noteq> ''your_webhook_secret''
            \<and> signature \<noteq> Some (hmac_sha256 env webhookSecret (stringify env (body req)))
         then (Error 400 ''Invalid signature'', st)
         else case payload (body req) of
                None \<Rightarrow> (Error 500 ''Webhook processing error'', st)
              | Some pl \<Rightarrow> (Ok200 (event (body req)), st))"

section \<open>The API server (\<open>part_000\<close>)\<close>

definition api_new_user :: "env \<Rightarrow> nat \<Rightarrow> string \<Rightarrow> user" where
  "api_new_user env now uid =
     \<lparr>user_id = Some uid, name = None, email = None, totalSpent = Finite 0, transactions = [],
      createdAt = Some (now_iso env now), lastActive = None\<rparr>"

text \<open>
  \<open>POST /api/verify-payment\<close> stores \<open>parseFloat(amount)\<close> as it is. The analysis is made
  after the store has been written.
\<close>

definition api_verify_payment ::
    "env \<Rightarrow> nat \<Rightarrow> budgetData \<Rightarrow> verify_req
      \<Rightarrow> (transaction \<times> analysis \<times> string \<times> js_number \<times> nat) response \<times> budgetData" where
  "api_verify_payment env now st req =
     (if \<not> truthy (razorpay_order_id req) \<or> \<not> truthy (razorpay_payment_id req)
         \<or> \<not> truthy (razorpay_signature req) \<or> \<not> truthy (v_userId req)
      then (Error 400 ''Missing required payment verification data'', st)
      else
        case createHmac env (RAZORPAY_KEY_SECRET env)
               (js_string (razorpay_order_id req) @ ''|'' @ js_string (razorpay_payment_id req)) of
          Inl e \<Rightarrow> (Error 500 ''Internal server error during payment verification'', st)
        | Inr generated_signature \<Rightarrow>
            if Some generated_signature \<noteq> razorpay_signature req
            then (Error 400 ''Payment verification failed - Invalid signature'', st)
            else
              let uid = js_string (v_userId req)
              in if dict_get (users st) uid = Inherited
                 then (Error 500 ''Internal server error during payment verification'', st)
                 else
                   let usr = (case users st uid of
                                Some u \<Rightarrow> u | None \<Rightarrow> api_new_user env now uid);
                       tx = \<lparr>tx_id = razorpay_payment_id req,
                             orderId = razorpay_order_id req, amount = v_amount req,
                             category = or_else (v_category req) ''Other'',
                             description = or_else (v_description req) ''Payment'',
                             date = now_iso env now, status = Success, verified = Some True,
                             tx_method = Some ''razorpay''\<rparr>;
                       usr' = usr\<lparr>totalSpent := js_add (totalSpent usr) (amount tx),
                                  transactions := transactions usr @ [tx],
                                  lastActive := Some (now_iso env now)\<rparr>;
                       st' = st\<lparr>users := (users st)(uid \<mapsto> usr'),
                                payments := payments st @
                                  [transaction.extend tx \<lparr>userId = Some uid\<rparr>],
                                analytics := (analytics st)
                                  \<lparr>totalTransactions := totalTransactions (analytics st) + 1,
                                   totalAmount :=
                                     js_add (totalAmount (analytics st)) (amount tx)\<rparr>\<rparr>
                   in (case api_analyzeBudget env now st' uid of
                         Inl e \<Rightarrow>
                           (Error 500 ''Internal server error during payment verification'', st')
                       | Inr a \<Rightarrow>
                           (Ok200 (tx, a, uid, totalSpent usr', length (transactions usr')),
                            st')))"

text \<open>\<open>payment.notes?.f\<close>.\<close>

definition notes_get :: "payment_entity \<Rightarrow> (pay_notes \<Rightarrow> string option) \<Rightarrow> string option" where
  "notes_get p f = (case p_notes p of None \<Rightarrow> None | Some n \<Rightarrow> f n)"

text \<open>
  \<open>handlePaymentCaptured(payment)\<close>: the early returns, then the transaction is built
  (which can throw) and only then the store is changed. For an inherited property in the
  place of the user, \<open>user.transactions.find\<close> throws.
\<close>

definition handlePaymentCaptured ::
    "env \<Rightarrow> budgetData \<Rightarrow> payment_entity option \<Rightarrow> js_error + budgetData" where
  "handlePaymentCaptured env st pay =
     (case pay of
        None \<Rightarrow> Inl TypeError
      | Some p \<Rightarrow>
          if \<not> truthy (notes_get p n_userId) then Inr st
          else
            let uid = js_string (notes_get p n_userId)
            in (case dict_get (users st) uid of
                    Absent \<Rightarrow> Inr st
                  | Inherited \<Rightarrow> Inl TypeError
                  | Own usr \<Rightarrow>
                      if find (\<lambda>t. tx_id t = p_id p) (transactions usr) \<noteq> None then Inr st
                      else
                        (case Date_toISOString env (js_mul (p_created_at p) (Finite 1000)) of
                          Inl e \<Rightarrow> Inl e
                        | Inr created \<Rightarrow>
                            let tx = \<lparr>tx_id = p_id p, orderId = p_order_id p,
                                      amount = js_div (p_amount p) (Finite 100),
                                      category = or_else (notes_get p n_category) ''Other'',
                                      description =
                                        or_else (notes_get p n_description) ''Webhook payment'',
                                      date = created, status = Captured, verified = None,
                                      tx_method = Some ''razorpay_webhook''\<rparr>;
                                usr' = usr\<lparr>totalSpent := js_add (totalSpent usr) (amount tx),
                                           transactions := transactions usr @ [tx]\<rparr>
                            in Inr (st\<lparr>users := (users st)(uid \<mapsto> usr'),
                                      payments := payments st @
                                        [transaction.extend tx \<lparr>userId = Some uid\<rparr>]\<rparr>))))"

text \<open>\<open>handlePaymentFailed\<close> and \<open>handleOrderPaid\<close> read a field of their argument and log it.\<close>

definition handlePaymentFailed :: "budgetData \<Rightarrow> payment_entity option \<Rightarrow> js_error + budgetData" where
  "handlePaymentFailed st pay = (case pay of None \<Rightarrow> Inl TypeError | Some p \<Rightarrow> Inr st)"

definition handleOrderPaid :: "budgetData \<Rightarrow> order_entity option \<Rightarrow> js_error + budgetData" where
  "handleOrderPaid st ord = (case ord of None \<Rightarrow> Inl TypeError | Some p \<Rightarrow> Inr st)"

text \<open>The \<open>switch (event)\<close> of the webhook route.\<close>

definition api_dispatch :: "env \<Rightarrow> budgetData \<Rightarrow> string option \<Rightarrow> payload \<Rightarrow> js_error + budgetData" where
  "api_dispatch env st ev pl =
     (if ev = Some ''payment.captured'' then
        (case payment pl of None \<Rightarrow> Inl TypeError
         | Some w \<Rightarrow> handlePaymentCaptured env st (entity w))
      else if ev = Some ''payment.failed'' then
        (case payment pl of None \<Rightarrow> Inl TypeError
         | Some w \<Rightarrow> handlePaymentFailed st (entity w))
      else if ev = Some ''order.paid'' then
        (case order pl of None \<Rightarrow> Inl TypeError
         | Some w \<Rightarrow> handleOrderPaid st (entity w))
      else Inr st)"

definition api_webhook ::
    "env \<Rightarrow> budgetData \<Rightarrow> webhook_req \<Rightarrow> bool response \<times> budgetData" where
  "api_webhook env st req =
     (let signature = x_razorpay_signature req;
          webhookSecret = webhook_secret env;
          generated_signature = hmac_sha256 env webhookSecret (stringify env (body req))
      in if signature \<noteq> Some generated_signature then (Error 400 ''Invalid signature'', st)
         else case payload (body req) of
                None \<Rightarrow> (Error 500 ''Webhook processing error'', st)
              | Some pl \<Rightarrow>
                  (case api_dispatch env st (event (body req)) pl of
                     Inl e \<Rightarrow> (Error 500 ''Webhook processing error'', st)
                   | Inr st' \<Rightarrow> (Ok200 True, st')))"

section \<open>The earlier server (\<open>part_002\<close>)\<close>

text \<open>
  \<open>POST /verify-payment\<close> checks no field before it signs \<open>order_id + '|' + payment_id\<close>,
  and an absent \<open>userId\<close> is the key \<open>undefined\<close>. The amount is \<open>parseFloat(amount)\<close> as it
  is. The entry of the payments log has no \<open>userId\<close>.
\<close>

definition srv_new_user :: user where
  "srv_new_user = \<lparr>user_id = None, name = None, email = None, totalSpent = Finite 0,
     transactions = [], createdAt = None, lastActive = None\<rparr>"

definition srv_verify_payment ::
    "env \<Rightarrow> nat \<Rightarrow> budgetData \<Rightarrow> verify_req
      \<Rightarrow> (transaction \<times> srv_analysis) response \<times> budgetData" where
  "srv_verify_payment env now st req =
     (case createHmac env (RAZORPAY_KEY_SECRET env)
             (js_string (razorpay_order_id req) @ ''|'' @ js_string (razorpay_payment_id req)) of
        Inl e \<Rightarrow> (Error 500 ''Internal server error'', st)
      | Inr generated_signature \<Rightarrow>
          if Some generated_signature = razorpay_signature req then
            let uid = js_string (v_userId req)
            in if dict_get (users st) uid = Inherited
               then (Error 500 ''Internal server error'', st)
               else
                 let usr = (case users st uid of Some u \<Rightarrow> u | None \<Rightarrow> srv_new_user);
                     tx = \<lparr>tx_id = razorpay_payment_id req,
                           orderId = razorpay_order_id req, amount = v_amount req,
                           category = or_else (v_category req) ''Other'',
                           description = or_else (v_description req) ''Payment'',
                           date = now_iso env now, status = Success, verified = None,
                           tx_method = None\<rparr>;
                     usr' = usr\<lparr>totalSpent := js_add (totalSpent usr) (amount tx),
                                transactions := transactions usr @ [tx]\<rparr>;
                     st' = st\<lparr>users := (users st)(uid \<mapsto> usr'),
                              payments := payments st @
                                [transaction.extend tx \<lparr>userId = None\<rparr>]\<rparr>
                 in (case srv_analyzeBudget st' uid of
                       Inl e \<Rightarrow> (Error 500 ''Internal server error'', st')
                     | Inr a \<Rightarrow> (Ok200 (tx, a), st'))
          else (Error 400 ''Payment verification failed'', st))"

text \<open>
  \<open>POST /webhook\<close>: the secret is the constant placeholder; a request whose signature does
  not match is answered like any other, with 200. The captured payment is read with
  \<open>payment.notes.userId\<close>, which throws when the payment has no \<open>notes\<close>.
\<close>

definition srv_captured :: "env \<Rightarrow> nat \<Rightarrow> budgetData \<Rightarrow> payload option \<Rightarrow> js_error + budgetData" where
  "srv_captured env now st plo =
     (case plo of
        None \<Rightarrow> Inl TypeError
      | Some pl \<Rightarrow>
          (case payment pl of
             None \<Rightarrow> Inl TypeError
           | Some w \<Rightarrow>
               (case entity w of
                  None \<Rightarrow> Inl TypeError
                | Some p \<Rightarrow>
                    (case p_notes p of
                       None \<Rightarrow> Inl TypeError
                     | Some n \<Rightarrow>
                         let uid = or_else (n_userId n) ''anonymous''
                         in if dict_get (users st) uid = Inherited then Inl TypeError
                            else
                              let usr = (case users st uid of
                                           Some u \<Rightarrow> u | None \<Rightarrow> srv_new_user);
                                  tx = \<lparr>tx_id = p_id p, orderId = None,
                                        amount = js_div (p_amount p) (Finite 100),
                                        category = or_else (n_category n) ''Other'',
                                        description =
                                          or_else (n_description n) ''Webhook payment'',
                                        date = now_iso env now, status = Captured,
                                        verified = None, tx_method = None\<rparr>;
                                  usr' = usr\<lparr>totalSpent :=
                                               js_add (totalSpent usr)
                                                 (js_div (p_amount p) (Finite 100)),
                                             transactions := transactions usr @ [tx]\<rparr>
                              in Inr (st\<lparr>users := (users st)(uid \<mapsto> usr')\<rparr>)))))"

definition srv_failed :: "budgetData \<Rightarrow> payload option \<Rightarrow> js_error + budgetData" where
  "srv_failed st plo =
     (case plo of
        None \<Rightarrow> Inl TypeError
      | Some pl \<Rightarrow>
          (case payment pl of
             None \<Rightarrow> Inl TypeError
           | Some w \<Rightarrow> (case entity w of None \<Rightarrow> Inl TypeError | Some p \<Rightarrow> Inr st)))"

definition srv_webhook ::
    "env \<Rightarrow> nat \<Rightarrow> budgetData \<Rightarrow> webhook_req \<Rightarrow> string response \<times> budgetData" where
  "srv_webhook env now st req =
     (let signature = x_razorpay_signature req;
          webhookSecret = ''your_webhook_secret'';
          generated_signature = hmac_sha256 env webhookSecret (stringify env (body req))
      in if signature = Some generated_signature then
           (case (if event (body req) = Some ''payment.captured''
                  then srv_captured env now st (payload (body req))
                  else if event (body req) = Some ''payment.failed''
                  then srv_failed st (payload (body req))
                  else Inr st) of
              Inl e \<Rightarrow> (Error 500 ''Error'', st)
            | Inr st' \<Rightarrow> (Ok200 ''OK'', st'))
         else (Ok200 ''OK'', st))"

section \<open>The deployment variant (\<open>razorpay-render-deploy/server.js\<close>)\<close>

definition render_new_user :: "env \<Rightarrow> nat \<Rightarrow> string \<Rightarrow> user" where
  "render_new_user env now uid =
     \<lparr>user_id = Some uid, name = Some (''User '' @ uid), email = Some [],
      totalSpent = Finite 0, transactions = [], createdAt = Some (now_iso env now),
      lastActive = None\<rparr>"

definition render_create_order ::
    "env \<Rightarrow> nat \<Rightarrow> budgetData \<Rightarrow> order_req \<Rightarrow> order_created response \<times> budgetData" where
  "render_create_order env now st req =
     (case o_amount req of
        None \<Rightarrow> (Error 400 ''Amount and userId are required'', st)
      | Some amt \<Rightarrow>
          if amt = 0 \<or> \<not> truthy (o_userId req)
          then (Error 400 ''Amount and userId are required'', st)
          else
            let uid = js_string (o_userId req);
                st1 = (if dict_get (users st) uid = Absent
                       then st\<lparr>users := (users st)(uid \<mapsto> render_new_user env now uid)\<rparr>
                       else st);
                currency = (case o_currency req of None \<Rightarrow> ''INR'' | Some c \<Rightarrow> c);
                orderOptions =
                  \<lparr>oo_amount = Math_round (js_mul (Finite amt) (Finite 100)),
                   oo_currency = currency,
                   oo_receipt = ''rcpt_'' @ uid @ ''_'' @ toString now,
                   oo_payment_capture = 1, oo_notes = None\<rparr>
            in (case orders_create env orderOptions of
                  Inl e \<Rightarrow> (Error 500 ''Failed to create payment order'', st1)
                | Inr ord \<Rightarrow>
                    (Ok200 \<lparr>oc_orderId = go_id ord, oc_amount = amt, oc_currency = currency,
                       oc_key = RAZORPAY_KEY_ID env, oc_userId = uid,
                       oc_category = o_category req, oc_description = o_description req,
                       oc_receipt = None, oc_created_at = None\<rparr>, st1)))"

text \<open>
  \<open>POST /api/verify-payment\<close>: the store is updated only if \<open>budgetData.users[userId]\<close> is
  truthy; the answer \<open>{id, amount: parseFloat(amount), status: 'success'}\<close> does not depend
  on it. An inherited property is truthy, and \<open>user.transactions.push\<close> then throws before
  the store is written.
\<close>

definition render_verify_payment ::
    "env \<Rightarrow> nat \<Rightarrow> budgetData \<Rightarrow> verify_req
      \<Rightarrow> (string \<times> js_number \<times> string) response \<times> budgetData" where
  "render_verify_payment env now st req =
     (if \<not> truthy (razorpay_order_id req) \<or> \<not> truthy (razorpay_payment_id req)
         \<or> \<not> truthy (razorpay_signature req) \<or> \<not> truthy (v_userId req)
      then (Error 400 ''Missing required payment data'', st)
      else
        case createHmac env (RAZORPAY_KEY_SECRET env)
               (js_string (razorpay_order_id req) @ ''|'' @ js_string (razorpay_payment_id req)) of
          Inl e \<Rightarrow> (Error 500 ''Payment verification failed'', st)
        | Inr generated_signature \<Rightarrow>
            if Some generated_signature \<noteq> razorpay_signature req
            then (Error 400 ''Payment verification failed'', st)
            else
              let uid = js_string (v_userId req);
                  answer = Ok200 (js_string (razorpay_payment_id req), v_amount req, ''success'')
              in (case dict_get (users st) uid of
                    Absent \<Rightarrow> (answer, st)
                  | Inherited \<Rightarrow> (Error 500 ''Payment verification failed'', st)
                  | Own usr \<Rightarrow>
                      let paymentAmount = parseFloat_or_0 (v_amount req);
                          tx = \<lparr>tx_id = razorpay_payment_id req,
                                orderId = razorpay_order_id req, amount = paymentAmount,
                                category = or_else (v_category req) ''Payment'',
                                description = or_else (v_description req) ''Payment'',
                                date = now_iso env now, status = Success,
                                verified = None, tx_method = None\<rparr>;
                          usr' = usr\<lparr>totalSpent := js_add (totalSpent usr) paymentAmount,
                                     transactions := transactions usr @ [tx]\<rparr>
                      in (answer,
                          st\<lparr>users := (users st)(uid \<mapsto> usr'),
                             payments := payments st @
                               [transaction.extend tx \<lparr>userId = Some uid\<rparr>],
                             analytics := (analytics st)
                               \<lparr>totalTransactions := totalTransactions (analytics st) + 1,
                                totalAmount :=
                                  js_add (totalAmount (analytics st)) paymentAmount\<rparr>\<rparr>)))"

section \<open>Ledger observations and runs\<close>

text \<open>
  The sum of the amounts whose status is \<open>success\<close> or \<open>captured\<close>, added from left to
  right, starting at 0, as the running total is built.
\<close>

definition counted :: "transaction \<Rightarrow> bool" where
  "counted t = (status t = Success \<or> status t = Captured)"

definition counted_sum :: "transaction list \<Rightarrow> js_number" where
  "counted_sum txs = foldl js_add (Finite 0) (map amount (filter counted txs))"

text \<open>
  \<open>ledger_inv st\<close>: every running total is the value of that sum, which is NaN when the sum
  is NaN; \<open>ledger_equal st uid\<close>: the running total of \<open>uid\<close> equals the sum as numbers are
  compared, which no NaN does.
\<close>

definition ledger_inv :: "budgetData \<Rightarrow> bool" where
  "ledger_inv st = (\<forall>uid. spent_of st uid = counted_sum (txs_of st uid))"

definition ledger_equal :: "budgetData \<Rightarrow> string \<Rightarrow> bool" where
  "ledger_equal st uid = js_eq (spent_of st uid) (counted_sum (txs_of st uid))"

text \<open>The recording requests of the two servers that have them, and runs of requests.\<close>

datatype pure_request = PureVerify verify_req | PureWebhook webhook_req

datatype api_request = ApiVerify verify_req | ApiWebhook webhook_req

fun pure_step :: "env \<Rightarrow> budgetData \<Rightarrow> nat \<times> pure_request \<Rightarrow> budgetData" where
  "pure_step env st (now, PureVerify req) = snd (pure_verify_payment env now st req)"
| "pure_step env st (now, PureWebhook req) = snd (pure_webhook env st req)"

fun api_step :: "env \<Rightarrow> budgetData \<Rightarrow> nat \<times> api_request \<Rightarrow> budgetData" where
  "api_step env st (now, ApiVerify req) = snd (api_verify_payment env now st req)"
| "api_step env st (now, ApiWebhook req) = snd (api_webhook env st req)"

text \<open>Whether a request is answered without an error.\<close>

fun api_accepts :: "env \<Rightarrow> budgetData \<Rightarrow> nat \<times> api_request \<Rightarrow> bool" where
  "api_accepts env st (now, ApiVerify req) =
     (\<not> is_error (fst (api_verify_payment env now st req)))"
| "api_accepts env st (now, ApiWebhook req) = (\<not> is_error (fst (api_webhook env st req)))"

definition pure_run :: "env \<Rightarrow> budgetData \<Rightarrow> (nat \<times> pure_request) list \<Rightarrow> budgetData" where
  "pure_run env st rs = foldl (pure_step env) st rs"

definition api_run :: "env \<Rightarrow> budgetData \<Rightarrow> (nat \<times> api_request) list \<Rightarrow> budgetData" where
  "api_run env st rs = foldl (api_step env) st rs"

section \<open>Vocabulary of the properties\<close>

text \<open>\<open>HMAC_SHA256(orderId + "|" + paymentId, secret)\<close>, the signature a payment must carry.\<close>

definition expected_signature :: "env \<Rightarrow> string \<Rightarrow> verify_req \<Rightarrow> string" where
  "expected_signature env secret req =
     hmac_sha256 env secret
       (js_string (razorpay_order_id req) @ ''|'' @ js_string (razorpay_payment_id req))"

text \<open>The signature a webhook request must carry under the secret \<open>secret\<close>.\<close>

definition webhook_signature :: "env \<Rightarrow> string \<Rightarrow> webhook_req \<Rightarrow> string" where
  "webhook_signature env secret req = hmac_sha256 env secret (stringify env (body req))"

text \<open>
  \<open>appends_tx st st' uid tx\<close>: from \<open>st\<close> to \<open>st'\<close> the user \<open>uid\<close> got the transaction \<open>tx\<close>
  at the end of the list and its amount on the running total, and no other user changed.
\<close>

definition appends_tx :: "budgetData \<Rightarrow> budgetData \<Rightarrow> string \<Rightarrow> transaction \<Rightarrow> bool" where
  "appends_tx st st' uid tx =
     (case users st' uid of
        None \<Rightarrow> False
      | Some usr' \<Rightarrow> users st' = (users st)(uid \<mapsto> usr')
          \<and> transactions usr' = txs_of st uid @ [tx]
          \<and> totalSpent usr' = js_add (spent_of st uid) (amount tx))"

text \<open>
  \<open>recorded_as_captured st st' uid p\<close>: from \<open>st\<close> to \<open>st'\<close> the user \<open>uid\<close> got one
  transaction, with the id of the payment \<open>p\<close>, the status \<open>captured\<close> and the amount of \<open>p\<close>
  divided by 100.
\<close>

definition recorded_as_captured ::
    "budgetData \<Rightarrow> budgetData \<Rightarrow> string \<Rightarrow> payment_entity \<Rightarrow> bool" where
  "recorded_as_captured st st' uid p =
     (let tx = last (txs_of st' uid)
      in appends_tx st st' uid tx \<and> tx_id tx = p_id p \<and> status tx = Captured
         \<and> amount tx = js_div (p_amount p) (Finite 100))"

text \<open>
  \<open>ledger_delta st st'\<close>: every user's list grew by at most one transaction, and the
  running total grew by the counted amounts of what was appended.
\<close>

definition ledger_delta :: "budgetData \<Rightarrow> budgetData \<Rightarrow> bool" where
  "ledger_delta st st' =
     (\<forall>uid. \<exists>new. length new \<le> 1 \<and> txs_of st' uid = txs_of st uid @ new
        \<and> spent_of st' uid = foldl js_add (spent_of st uid) (map amount (filter counted new)))"

text \<open>
  \<open>ledger_frame st st'\<close>: no list and no total changed; a user that is new in \<open>st'\<close> has
  total 0 and no transaction; the payments log and the counters are the same.
\<close>

definition ledger_frame :: "budgetData \<Rightarrow> budgetData \<Rightarrow> bool" where
  "ledger_frame st st' =
     (payments st' = payments st \<and> analytics st' = analytics st
      \<and> (\<forall>uid. txs_of st' uid = txs_of st uid \<and> spent_of st' uid = spent_of st uid
            \<and> (case users st uid of
                  Some u \<Rightarrow> users st' uid = Some u
                | None \<Rightarrow> (case users st' uid of
                             None \<Rightarrow> True
                           | Some u \<Rightarrow> totalSpent u = Finite 0 \<and> transactions u = []))))"

section \<open>Concrete inputs\<close>

text \<open>
  An environment with the key secret \<open>s3cret\<close>, no webhook secret, a stand-in for the
  keyed hash that writes key and message side by side, and a gateway that accepts.
\<close>

definition env0 :: env where
  "env0 = \<lparr>RAZORPAY_KEY_ID = Some ''rzp_test_key'', RAZORPAY_KEY_SECRET = Some ''s3cret'',
     RAZORPAY_WEBHOOK_SECRET = None,
     hmac_sha256 = (\<lambda>k m. ''mac('' @ k @ '','' @ m @ '')''),
     stringify = (\<lambda>b. js_string (event b)),
     toISOString = (\<lambda>ms. toString (nat ms)),
     orders_create = (\<lambda>oo. Inr \<lparr>go_id = ''order_a'', go_receipt = oo_receipt oo,
       go_created_at = 0\<rparr>)\<rparr>"

text \<open>A correctly signed confirmation of the payment \<open>pay_a\<close> of 500 by the user \<open>u1\<close>.\<close>

definition pay_a :: verify_req where
  "pay_a = \<lparr>razorpay_order_id = Some ''order_a'', razorpay_payment_id = Some ''pay_a'',
     razorpay_signature = Some ''mac(s3cret,order_a|pay_a)'', v_userId = Some ''u1'',
     v_amount = Finite 500, v_category = Some ''Food'', v_description = None\<rparr>"

text \<open>The same confirmation with a signature made up by the sender.\<close>

definition forged :: verify_req where
  "forged = pay_a\<lparr>razorpay_signature := Some ''0000''\<rparr>"

text \<open>The same confirmation for a user \<open>ghost\<close>, who is in no store.\<close>

definition pay_ghost :: verify_req where
  "pay_ghost = pay_a\<lparr>v_userId := Some ''ghost''\<rparr>"

text \<open>The same confirmation for the user id \<open>constructor\<close>, which is in no store either.\<close>

definition pay_constructor :: verify_req where
  "pay_constructor = pay_a\<lparr>v_userId := Some ''constructor''\<rparr>"

text \<open>A correctly signed confirmation of the payment \<open>pay_b\<close> whose body has no \<open>amount\<close>.\<close>

definition pay_b :: verify_req where
  "pay_b = \<lparr>razorpay_order_id = Some ''order_b'', razorpay_payment_id = Some ''pay_b'',
     razorpay_signature = Some ''mac(s3cret,order_b|pay_b)'', v_userId = Some ''u1'',
     v_amount = NaN, v_category = None, v_description = None\<rparr>"

text \<open>A transaction of a given id, category and amount.\<close>

definition tx0 :: "string \<Rightarrow> string \<Rightarrow> rat \<Rightarrow> transaction" where
  "tx0 i c a = \<lparr>tx_id = Some i, orderId = None, amount = Finite a, category = c,
     description = ''Payment'', date = ''2025-01-01T00:00:00.000Z'', status = Success,
     verified = Some True, tx_method = Some ''razorpay''\<rparr>"

text \<open>A store where \<open>u1\<close> has spent \<open>spent\<close> in one payment and has the monthly limit \<open>limit\<close>.\<close>

definition ledger_of :: "rat \<Rightarrow> rat \<Rightarrow> budgetData" where
  "ledger_of spent limit =
     budgetData0\<lparr>users := [''u1'' \<mapsto> \<lparr>user_id = Some ''u1'', name = None, email = None,
         totalSpent = Finite spent, transactions = [tx0 ''pay_0'' ''Food'' spent],
         createdAt = None, lastActive = None\<rparr>],
       budgets := [''u1'' \<mapsto> \<lparr>monthly = Finite limit, alerts = Some True, stamp = None\<rparr>]\<rparr>"

text \<open>
  Webhook requests announcing the captured payment \<open>pay_w\<close> of 12345 paise, whose notes
  name the user \<open>uid\<close> or no user, signed with the placeholder secret; the same requests
  without a signature header; and the signed request for a payment without notes.
\<close>

definition captured_payment :: "string option \<Rightarrow> payment_entity" where
  "captured_payment uid =
     \<lparr>p_id = Some ''pay_w'', p_order_id = Some ''order_w'', p_amount = Finite 12345,
      p_notes = Some \<lparr>n_userId = uid, n_category = None, n_description = None\<rparr>,
      p_created_at = Finite 1700000000\<rparr>"

definition captured_payload :: "string option \<Rightarrow> payload" where
  "captured_payload uid =
     \<lparr>payment = Some \<lparr>entity = Some (captured_payment uid)\<rparr>, order = None\<rparr>"

definition captured_body :: "string option \<Rightarrow> webhook_body" where
  "captured_body uid =
     \<lparr>event = Some ''payment.captured'', payload = Some (captured_payload uid)\<rparr>"

definition captured_signed :: "string option \<Rightarrow> webhook_req" where
  "captured_signed uid =
     \<lparr>x_razorpay_signature = Some ''mac(your_webhook_secret,payment.captured)'',
      body = captured_body uid\<rparr>"

definition captured_unsigned :: "string option \<Rightarrow> webhook_req" where
  "captured_unsigned uid = \<lparr>x_razorpay_signature = None, body = captured_body uid\<rparr>"

definition captured_without_notes :: webhook_req where
  "captured_without_notes =
     \<lparr>x_razorpay_signature = Some ''mac(your_webhook_secret,payment.captured)'',
      body = \<lparr>event = Some ''payment.captured'',
        payload = Some \<lparr>payment = Some \<lparr>entity =
          Some ((captured_payment None)\<lparr>p_notes := None\<rparr>)\<rparr>, order = None\<rparr>\<rparr>\<rparr>"

text \<open>A request for an order of 500 by the user \<open>u1\<close>.\<close>

definition order_u1 :: order_req where
  "order_u1 = \<lparr>o_amount = Some 500, o_userId = Some ''u1'', o_category = None,
     o_description = None, o_currency = None\<rparr>"

section \<open>Auxiliary facts\<close>

lemma floor_rat_numeral: "\<lfloor>(numeral a :: rat) / numeral b\<rfloor> = numeral a div numeral b"
  by (metis floor_divide_of_int_eq of_int_numeral)

lemmas double_eval = to_double_def exponent_def pow2_def round_half_even_def halvings.simps
  doublings.simps floor_rat_numeral Let_def

lemma counted_sum_append:
  "counted_sum (xs @ ys) = foldl js_add (counted_sum xs) (map amount (filter counted ys))"
  by (simp add: counted_sum_def)

lemma ledger_delta_refl: "ledger_delta st st"
  unfolding ledger_delta_def
proof
  fix uid
  show "\<exists>new. length new \<le> 1 \<and> txs_of st uid = txs_of st uid @ new
        \<and> spent_of st uid = foldl js_add (spent_of st uid) (map amount (filter counted new))"
    by (rule exI [of _ "[]"]) simp
qed

lemma ledger_delta_inv:
  assumes "ledger_inv st" and "ledger_delta st st'"
  shows "ledger_inv st'"
  unfolding ledger_inv_def
proof
  fix uid
  from assms(2) obtain new where n: "txs_of st' uid = txs_of st uid @ new"
      "spent_of st' uid = foldl js_add (spent_of st uid) (map amount (filter counted new))"
    unfolding ledger_delta_def by blast
  from assms(1) have "spent_of st uid = counted_sum (txs_of st uid)"
    by (simp add: ledger_inv_def)
  with n show "spent_of st' uid = counted_sum (txs_of st' uid)"
    by (simp add: counted_sum_append)
qed

lemma ledger_delta_record:
  assumes "appends_tx st st' uid tx" and "counted tx"
  shows "ledger_delta st st'"
  unfolding ledger_delta_def
proof
  fix k
  from assms(1) obtain usr' where u: "users st' = (users st)(uid \<mapsto> usr')"
     "transactions usr' = txs_of st uid @ [tx]"
     "totalSpent usr' = js_add (spent_of st uid) (amount tx)"
    unfolding appends_tx_def by (auto split: option.splits)
  show "\<exists>new. length new \<le> 1 \<and> txs_of st' k = txs_of st k @ new
        \<and> spent_of st' k = foldl js_add (spent_of st k) (map amount (filter counted new))"
  proof (cases "k = uid")
    case True
    with u assms(2) show ?thesis
      by (intro exI [of _ "[tx]"]) (simp add: txs_of_def spent_of_def)
  next
    case False
    with u(1) show ?thesis
      by (intro exI [of _ "[]"]) (simp add: txs_of_def spent_of_def)
  qed
qed

text \<open>A running total that is the sum equals it as a number unless it is NaN.\<close>

lemma ledger_equal_iff:
  assumes "ledger_inv st"
  shows "ledger_equal st uid \<longleftrightarrow> spent_of st uid \<noteq> NaN"
  using assms by (auto simp: ledger_inv_def ledger_equal_def js_eq_def)

subsection \<open>What each recording handler does to the ledger\<close>

lemma pure_verify_cases:
  "snd (pure_verify_payment env now st req) = st
   \<or> (counted (last (txs_of (snd (pure_verify_payment env now st req)) (js_string (v_userId req))))
      \<and> appends_tx st (snd (pure_verify_payment env now st req)) (js_string (v_userId req))
          (last (txs_of (snd (pure_verify_payment env now st req)) (js_string (v_userId req)))))"
  by (auto simp: pure_verify_payment_def Let_def counted_def txs_of_def spent_of_def appends_tx_def
        pure_new_user_def split: option.splits sum.splits)

lemma pure_verify_delta: "ledger_delta st (snd (pure_verify_payment env now st req))"
  using pure_verify_cases [of env now st req] ledger_delta_refl [of st] ledger_delta_record
  by metis

lemma api_verify_cases:
  "snd (api_verify_payment env now st req) = st
   \<or> (counted (last (txs_of (snd (api_verify_payment env now st req)) (js_string (v_userId req))))
      \<and> appends_tx st (snd (api_verify_payment env now st req)) (js_string (v_userId req))
          (last (txs_of (snd (api_verify_payment env now st req)) (js_string (v_userId req)))))"
  by (auto simp: api_verify_payment_def Let_def counted_def txs_of_def spent_of_def appends_tx_def
        api_new_user_def split: option.splits sum.splits)

lemma api_verify_delta: "ledger_delta st (snd (api_verify_payment env now st req))"
  using api_verify_cases [of env now st req] ledger_delta_refl [of st] ledger_delta_record
  by metis

text \<open>The confirmations of the other two servers keep list and total together as well.\<close>

lemma srv_verify_cases:
  "snd (srv_verify_payment env now st req) = st
   \<or> (counted (last (txs_of (snd (srv_verify_payment env now st req)) (js_string (v_userId req))))
      \<and> appends_tx st (snd (srv_verify_payment env now st req)) (js_string (v_userId req))
          (last (txs_of (snd (srv_verify_payment env now st req)) (js_string (v_userId req)))))"
  by (auto simp: srv_verify_payment_def Let_def counted_def txs_of_def spent_of_def appends_tx_def
        srv_new_user_def split: option.splits sum.splits)

lemma render_verify_cases:
  "snd (render_verify_payment env now st req) = st
   \<or> (counted (last (txs_of (snd (render_verify_payment env now st req)) (js_string (v_userId req))))
      \<and> appends_tx st (snd (render_verify_payment env now st req)) (js_string (v_userId req))
          (last (txs_of (snd (render_verify_payment env now st req)) (js_string (v_userId req)))))"
  by (auto simp: render_verify_payment_def Let_def counted_def txs_of_def spent_of_def
        appends_tx_def dict_get_def split: option.splits sum.splits property.splits if_splits)

lemma other_servers_delta:
  "ledger_delta st (snd (srv_verify_payment env now st sreq))"
  "ledger_delta st (snd (render_verify_payment env now st req))"
  using srv_verify_cases [of env now st sreq] render_verify_cases [of env now st req]
    ledger_delta_refl [of st] ledger_delta_record
  by metis+

lemma pure_webhook_state: "snd (pure_webhook env st req) = st"
  by (simp add: pure_webhook_def Let_def split: option.splits)

text \<open>The capture handler either leaves the store alone or appends the captured payment.\<close>

lemma handlePaymentCaptured_cases:
  assumes "handlePaymentCaptured env st (Some p) = Inr st'"
  shows "st' = st
    \<or> (truthy (notes_get p n_userId) \<and> users st (js_string (notes_get p n_userId)) \<noteq> None
       \<and> p_id p \<notin> tx_id ` set (txs_of st (js_string (notes_get p n_userId)))
       \<and> appends_tx st st' (js_string (notes_get p n_userId))
            (last (txs_of st' (js_string (notes_get p n_userId))))
       \<and> tx_id (last (txs_of st' (js_string (notes_get p n_userId)))) = p_id p
       \<and> status (last (txs_of st' (js_string (notes_get p n_userId)))) = Captured
       \<and> amount (last (txs_of st' (js_string (notes_get p n_userId))))
           = js_div (p_amount p) (Finite 100))"
  using assms
  by (auto simp: handlePaymentCaptured_def Let_def txs_of_def spent_of_def appends_tx_def
        find_None_iff dict_get_def Date_toISOString_def
        split: option.splits sum.splits if_splits property.splits)

lemma handlePaymentCaptured_delta:
  assumes "handlePaymentCaptured env st pay = Inr st'"
  shows "ledger_delta st st'"
proof (cases pay)
  case None
  with assms show ?thesis by (simp add: handlePaymentCaptured_def)
next
  case (Some p)
  with assms have "handlePaymentCaptured env st (Some p) = Inr st'" by simp
  from handlePaymentCaptured_cases [OF this] show ?thesis
    using ledger_delta_refl [of st] ledger_delta_record [of st st'] by (auto simp: counted_def)
qed

lemma api_dispatch_delta:
  assumes "api_dispatch env st ev pl = Inr st'"
  shows "ledger_delta st st'"
  using assms handlePaymentCaptured_delta [of env st _ st'] ledger_delta_refl [of st]
  by (auto simp: api_dispatch_def handlePaymentFailed_def handleOrderPaid_def
        split: if_splits option.splits)

lemma api_webhook_delta: "ledger_delta st (snd (api_webhook env st req))"
  using api_dispatch_delta [of env st] ledger_delta_refl [of st]
  by (auto simp: api_webhook_def Let_def split: option.splits sum.splits)

lemma pure_step_delta: "ledger_delta st (pure_step env st r)"
proof (cases r)
  case (Pair now q)
  then show ?thesis
    by (cases q) (simp_all add: pure_verify_delta pure_webhook_state ledger_delta_refl)
qed

lemma api_step_delta: "ledger_delta st (api_step env st r)"
proof (cases r)
  case (Pair now q)
  then show ?thesis
    by (cases q) (simp_all add: api_verify_delta api_webhook_delta)
qed

lemma pure_run_inv: "ledger_inv st \<Longrightarrow> ledger_inv (pure_run env st rs)"
  unfolding pure_run_def
  by (induction rs arbitrary: st) (auto intro: ledger_delta_inv pure_step_delta)

lemma api_run_inv: "ledger_inv st \<Longrightarrow> ledger_inv (api_run env st rs)"
  unfolding api_run_def
  by (induction rs arbitrary: st) (auto intro: ledger_delta_inv api_step_delta)

lemma ledger_inv_fresh: "ledger_inv budgetData0"
  by (simp add: ledger_inv_def budgetData0_def spent_of_def txs_of_def counted_sum_def)

subsection \<open>Unfolding the concrete inputs\<close>

lemmas request_values = env0_def pay_a_def pay_b_def forged_def pay_ghost_def pay_constructor_def
  captured_payment_def captured_payload_def captured_body_def captured_signed_def
  captured_unsigned_def captured_without_notes_def order_u1_def budgetData0_def

lemmas js_values = truthy_def or_else_def js_string_def parseFloat_or_0_def createHmac_def
  webhook_secret_def notes_get_def Date_toISOString_def dict_get_def inherited_def js_eq_def
  js_sub_def signed_infinity_def toFixed2_def

section \<open>Recording payments\<close>

text \<open>
  A correctly signed confirmation for a user id that is not an inherited property name is
  always recorded: the handler appends the transaction and adds its amount whether or not
  the user already has a transaction with that id.
\<close>

lemma pure_verify_records_any_id:
  assumes "truthy (razorpay_order_id req)" and "truthy (razorpay_payment_id req)"
    and "truthy (razorpay_signature req)" and "truthy (v_userId req)"
    and "RAZORPAY_KEY_SECRET env = Some secret"
    and "razorpay_signature req = Some (expected_signature env secret req)"
    and "dict_get (users st) (js_string (v_userId req)) \<noteq> Inherited"
  shows "fst (pure_verify_payment env now st req) =
           Ok200 (last (txs_of (snd (pure_verify_payment env now st req)) (js_string (v_userId req))),
             js_string (v_userId req),
             js_add (spent_of st (js_string (v_userId req))) (parseFloat_or_0 (v_amount req)),
             Suc (length (txs_of st (js_string (v_userId req)))))
     \<and> appends_tx st (snd (pure_verify_payment env now st req)) (js_string (v_userId req))
          (last (txs_of (snd (pure_verify_payment env now st req)) (js_string (v_userId req))))
     \<and> tx_id (last (txs_of (snd (pure_verify_payment env now st req)) (js_string (v_userId req))))
          = razorpay_payment_id req
     \<and> amount (last (txs_of (snd (pure_verify_payment env now st req)) (js_string (v_userId req))))
          = parseFloat_or_0 (v_amount req)"
  using assms
  by (auto simp: pure_verify_payment_def Let_def txs_of_def spent_of_def appends_tx_def
        createHmac_def expected_signature_def pure_new_user_def split: option.splits)

text \<open>
  Claim C1 says that a payment id already in a user's ledger is recorded only once, also
  through \<open>verify-payment\<close>. The handler of the pure API server has no such check: the
  correctly signed confirmation \<open>pay_a\<close> of 500, sent twice, is counted twice. After the
  first request the user \<open>u1\<close> has spent 500 in one transaction; after the second, 1000 in
  two transactions with the same id. The capture handler of the API server does look for
  the id first (\<open>handlePaymentCaptured_idempotent\<close> below).
\<close>

theorem verify_payment_replay_counted_twice:
  "spent_of (pure_step env0 budgetData0 (1, PureVerify pay_a)) ''u1'' = Finite 500
   \<and> map tx_id (txs_of (pure_step env0 budgetData0 (1, PureVerify pay_a)) ''u1'')
       = [Some ''pay_a'']
   \<and> spent_of (pure_run env0 budgetData0 [(1, PureVerify pay_a), (2, PureVerify pay_a)]) ''u1''
       = Finite 1000
   \<and> map tx_id (txs_of (pure_run env0 budgetData0 [(1, PureVerify pay_a), (2, PureVerify pay_a)])
       ''u1'') = [Some ''pay_a'', Some ''pay_a'']"
  by (simp add: pure_run_def pure_verify_payment_def pure_new_user_def request_values js_values
        spent_of_def txs_of_def double_eval)

text \<open>
  The running total and the list stay together in every request of the two servers: each
  user's list grows by at most one transaction while the total grows by the counted amount
  appended, so that the total always is the value of the sum, added in the order of the
  list.
\<close>

lemma ledger_total_follows_list:
  "ledger_inv budgetData0
   \<and> (ledger_inv st \<longrightarrow> ledger_inv (pure_run env st rs) \<and> ledger_inv (api_run env st qs))
   \<and> ledger_delta st (pure_step env st r) \<and> ledger_delta st (api_step env st q)"
proof (intro conjI impI)
  show "ledger_inv budgetData0" by (rule ledger_inv_fresh)
next
  assume "ledger_inv st"
  then show "ledger_inv (pure_run env st rs)" and "ledger_inv (api_run env st qs)"
    by (rule pure_run_inv, rule api_run_inv)
next
  show "ledger_delta st (pure_step env st r)" by (rule pure_step_delta)
next
  show "ledger_delta st (api_step env st q)" by (rule api_step_delta)
qed

text \<open>
  Claim C2 says that after every sequence of recordings the running total equals the sum
  of the counted amounts. The API server stores \<open>parseFloat(amount)\<close> as it is: the
  correctly signed confirmation \<open>pay_b\<close>, whose body has no \<open>amount\<close>, is answered with a
  success and leaves the user \<open>u1\<close> with the total NaN, which equals no number, the sum
  included; and the total stays NaN when the payment \<open>pay_a\<close> of 500 follows. The pure API
  server, with \<open>parseFloat(amount) || 0\<close>, records 0 for \<open>pay_b\<close>, and after the same two
  requests the total is 500 and equals the sum.
\<close>

theorem confirmation_without_amount_spoils_total:
  "api_accepts env0 budgetData0 (1, ApiVerify pay_b)
   \<and> spent_of (api_step env0 budgetData0 (1, ApiVerify pay_b)) ''u1'' = NaN
   \<and> map amount (txs_of (api_step env0 budgetData0 (1, ApiVerify pay_b)) ''u1'') = [NaN]
   \<and> \<not> ledger_equal (api_step env0 budgetData0 (1, ApiVerify pay_b)) ''u1''
   \<and> spent_of (api_run env0 budgetData0 [(1, ApiVerify pay_b), (2, ApiVerify pay_a)]) ''u1'' = NaN
   \<and> map amount (txs_of (api_run env0 budgetData0 [(1, ApiVerify pay_b), (2, ApiVerify pay_a)])
        ''u1'') = [NaN, Finite 500]
   \<and> \<not> ledger_equal (api_run env0 budgetData0 [(1, ApiVerify pay_b), (2, ApiVerify pay_a)]) ''u1''
   \<and> spent_of (pure_run env0 budgetData0 [(1, PureVerify pay_b), (2, PureVerify pay_a)]) ''u1''
       = Finite 500
   \<and> map amount (txs_of (pure_run env0 budgetData0 [(1, PureVerify pay_b), (2, PureVerify pay_a)])
        ''u1'') = [Finite 0, Finite 500]
   \<and> ledger_equal (pure_run env0 budgetData0 [(1, PureVerify pay_b), (2, PureVerify pay_a)]) ''u1''"
  by (simp add: api_run_def pure_run_def api_verify_payment_def pure_verify_payment_def
        api_new_user_def pure_new_user_def api_analyzeBudget_def request_values js_values
        spent_of_def txs_of_def ledger_equal_def counted_sum_def counted_def double_eval)

section \<open>Signatures\<close>

text \<open>
  Claim C3: when the key secret is configured and the signature of a \<open>verify-payment\<close>
  request is not \<open>HMAC_SHA256(orderId + "|" + paymentId, secret)\<close>, the pure API server
  answers with an error and the earlier server answers 400, and the store is the one before
  the call.
\<close>

theorem verify_payment_rejects_bad_signature:
  assumes "RAZORPAY_KEY_SECRET env = Some secret"
  shows "(razorpay_signature req \<noteq> Some (expected_signature env secret req) \<longrightarrow>
            is_error (fst (pure_verify_payment env now st req))
            \<and> snd (pure_verify_payment env now st req) = st)
       \<and> (razorpay_signature sreq \<noteq> Some (expected_signature env secret sreq) \<longrightarrow>
            srv_verify_payment env now st sreq = (Error 400 ''Payment verification failed'', st))"
  using assms
  by (auto simp: pure_verify_payment_def srv_verify_payment_def createHmac_def
        expected_signature_def)

theorem verify_payment_rejects_bad_signature_witness:
  "RAZORPAY_KEY_SECRET env0 = Some ''s3cret''
   \<and> razorpay_signature forged \<noteq> Some (expected_signature env0 ''s3cret'' forged)
   \<and> pure_verify_payment env0 1 (ledger_of 500 1000) forged
       = (Error 400 ''Payment verification failed - Invalid signature'', ledger_of 500 1000)
   \<and> srv_verify_payment env0 1 (ledger_of 500 1000) forged
       = (Error 400 ''Payment verification failed'', ledger_of 500 1000)"
  using verify_payment_rejects_bad_signature [of env0 "''s3cret''" forged 1 "ledger_of 500 1000"
      forged]
  by (simp add: pure_verify_payment_def expected_signature_def request_values js_values)

text \<open>The other two servers reject such a request in the same way.\<close>

lemma verify_payment_rejects_everywhere:
  assumes "RAZORPAY_KEY_SECRET env = Some secret"
  shows "(razorpay_signature sreq \<noteq> Some (expected_signature env secret sreq) \<longrightarrow>
            is_error (fst (api_verify_payment env now st sreq))
            \<and> snd (api_verify_payment env now st sreq) = st)
       \<and> (razorpay_signature req \<noteq> Some (expected_signature env secret req) \<longrightarrow>
            is_error (fst (render_verify_payment env now st req))
            \<and> snd (render_verify_payment env now st req) = st)"
  using assms
  by (auto simp: api_verify_payment_def render_verify_payment_def createHmac_def
        expected_signature_def)

text \<open>
  Claim C4 says that a webhook request is rejected whenever the signature header or the
  webhook secret is absent, and that verification is never skipped. With no secret
  configured and no signature header the pure API server skips the comparison and answers
  200; and the API server then verifies against the placeholder \<open>your_webhook_secret\<close>, so
  a request signed with the placeholder is accepted and recorded: the total of \<open>u1\<close> goes
  from 500 to the double next to 623.45.
\<close>

theorem webhook_fails_open_counterexample:
  "RAZORPAY_WEBHOOK_SECRET env0 = None
   \<and> x_razorpay_signature (captured_unsigned (Some ''u1'')) = None
   \<and> pure_webhook env0 (ledger_of 500 1000) (captured_unsigned (Some ''u1''))
       = (Ok200 (Some ''payment.captured''), ledger_of 500 1000)
   \<and> fst (api_webhook env0 (ledger_of 500 1000) (captured_signed (Some ''u1''))) = Ok200 True
   \<and> spent_of (snd (api_webhook env0 (ledger_of 500 1000) (captured_signed (Some ''u1'')))) ''u1''
       = to_double (62345 / 100)"
  by (simp add: pure_webhook_def api_webhook_def api_dispatch_def handlePaymentCaptured_def
        request_values js_values ledger_of_def tx0_def spent_of_def double_eval)

text \<open>
  Claim C4 as amended: a webhook request whose signature header is absent or is not the
  keyed hash of the serialised body under the effective secret changes no store. The API
  server rejects it with 400 and the earlier server ignores it and answers 200; the
  effective secret is the configured one, or the placeholder \<open>your_webhook_secret\<close> when
  none is configured (in the earlier server always the placeholder). The pure API server
  compares only when the secret is not the placeholder and rejects a mismatch with 400;
  its webhook never changes the store.
\<close>

theorem webhook_signature_check:
  "(x_razorpay_signature req \<noteq> Some (webhook_signature env (webhook_secret env) req) \<longrightarrow>
      api_webhook env st req = (Error 400 ''Invalid signature'', st))
   \<and> (x_razorpay_signature req \<noteq> Some (webhook_signature env ''your_webhook_secret'' req) \<longrightarrow>
      srv_webhook env now st req = (Ok200 ''OK'', st))
   \<and> snd (pure_webhook env st req) = st
   \<and> (webhook_secret env \<noteq> ''your_webhook_secret''
        \<and> x_razorpay_signature req \<noteq> Some (webhook_signature env (webhook_secret env) req) \<longrightarrow>
      pure_webhook env st req = (Error 400 ''Invalid signature'', st))
   \<and> (\<not> truthy (RAZORPAY_WEBHOOK_SECRET env) \<longrightarrow>
      webhook_secret env = ''your_webhook_secret'')"
  by (auto simp: api_webhook_def srv_webhook_def pure_webhook_def webhook_signature_def Let_def
        webhook_secret_def or_else_def truthy_def split: option.splits)

theorem webhook_signature_check_witness:
  "x_razorpay_signature (captured_unsigned (Some ''u1''))
     \<noteq> Some (webhook_signature env0 (webhook_secret env0) (captured_unsigned (Some ''u1'')))
   \<and> api_webhook env0 (ledger_of 500 1000) (captured_unsigned (Some ''u1''))
       = (Error 400 ''Invalid signature'', ledger_of 500 1000)
   \<and> srv_webhook env0 1 (ledger_of 500 1000) (captured_unsigned (Some ''u1''))
       = (Ok200 ''OK'', ledger_of 500 1000)
   \<and> snd (pure_webhook env0 (ledger_of 500 1000) (captured_unsigned (Some ''u1''))) = ledger_of 500 1000
   \<and> webhook_secret env0 = ''your_webhook_secret''"
  using webhook_signature_check [of "captured_unsigned (Some ''u1'')" env0 "ledger_of 500 1000" 1]
  by (simp add: request_values js_values)

section \<open>Webhook events\<close>

text \<open>With a valid signature and a payload the webhook of the API server dispatches.\<close>

lemma api_webhook_valid:
  assumes "x_razorpay_signature req = Some (webhook_signature env (webhook_secret env) req)"
    and "payload (body req) = Some pl"
  shows "api_webhook env st req =
     (case api_dispatch env st (event (body req)) pl of
        Inl e \<Rightarrow> (Error 500 ''Webhook processing error'', st)
      | Inr st' \<Rightarrow> (Ok200 True, st'))"
  using assms by (simp add: api_webhook_def webhook_signature_def Let_def)

lemma api_dispatch_captured:
  assumes "payment pl = Some w" and "entity w = Some p"
  shows "api_dispatch env st (Some ''payment.captured'') pl = handlePaymentCaptured env st (Some p)"
  using assms by (simp add: api_dispatch_def)

lemma api_other_events:
  assumes "event (body req) \<noteq> Some ''payment.captured''"
  shows "snd (api_webhook env st req) = st"
  using assms
  by (simp add: api_webhook_def api_dispatch_def handlePaymentFailed_def handleOrderPaid_def
        Let_def split: option.splits)

text \<open>The outcomes of \<open>handlePaymentCaptured\<close>.\<close>

lemma handlePaymentCaptured_noop:
  assumes "\<not> truthy (notes_get p n_userId)
     \<or> dict_get (users st) (js_string (notes_get p n_userId)) = Absent
     \<or> (dict_get (users st) (js_string (notes_get p n_userId)) \<noteq> Inherited
        \<and> p_id p \<in> tx_id ` set (txs_of st (js_string (notes_get p n_userId))))"
  shows "handlePaymentCaptured env st (Some p) = Inr st"
  using assms
  by (auto simp: handlePaymentCaptured_def Let_def txs_of_def find_None_iff dict_get_def
        split: option.splits property.splits if_splits)

lemma handlePaymentCaptured_inherited:
  assumes "truthy (notes_get p n_userId)"
    and "dict_get (users st) (js_string (notes_get p n_userId)) = Inherited"
  shows "handlePaymentCaptured env st (Some p) = Inl TypeError"
  using assms by (simp add: handlePaymentCaptured_def)

lemma handlePaymentCaptured_records:
  assumes "truthy (notes_get p n_userId)"
    and "dict_get (users st) (js_string (notes_get p n_userId)) \<noteq> Absent"
    and "dict_get (users st) (js_string (notes_get p n_userId)) \<noteq> Inherited"
    and "p_id p \<notin> tx_id ` set (txs_of st (js_string (notes_get p n_userId)))"
    and "time_clip (js_mul (p_created_at p) (Finite 1000)) \<noteq> None"
  shows "case handlePaymentCaptured env st (Some p) of
           Inl e \<Rightarrow> False
         | Inr st' \<Rightarrow> recorded_as_captured st st' (js_string (notes_get p n_userId)) p"
  using assms
  by (auto simp: handlePaymentCaptured_def Let_def txs_of_def spent_of_def appends_tx_def
        recorded_as_captured_def find_None_iff Date_toISOString_def image_iff dict_get_def
        split: option.splits property.splits if_splits)

lemma handlePaymentCaptured_bad_date:
  assumes "truthy (notes_get p n_userId)"
    and "dict_get (users st) (js_string (notes_get p n_userId)) \<noteq> Absent"
    and "dict_get (users st) (js_string (notes_get p n_userId)) \<noteq> Inherited"
    and "p_id p \<notin> tx_id ` set (txs_of st (js_string (notes_get p n_userId)))"
    and "time_clip (js_mul (p_created_at p) (Finite 1000)) = None"
  shows "handlePaymentCaptured env st (Some p) = Inl RangeError"
  using assms
  by (auto simp: handlePaymentCaptured_def Let_def txs_of_def find_None_iff Date_toISOString_def
        image_iff dict_get_def split: option.splits property.splits if_splits)

text \<open>Sent again, a captured payment is not recorded again.\<close>

lemma appends_tx_member:
  assumes "appends_tx st st' uid tx"
  shows "tx \<in> set (txs_of st' uid)"
proof (cases "users st' uid")
  case None
  with assms show ?thesis by (simp add: appends_tx_def)
next
  case (Some usr')
  with assms have "transactions usr' = txs_of st uid @ [tx]" by (simp add: appends_tx_def)
  with Some show ?thesis by (simp add: txs_of_def)
qed

lemma appends_tx_own:
  assumes "appends_tx st st' uid tx"
  shows "dict_get (users st') uid \<noteq> Inherited" and "dict_get (users st') uid \<noteq> Absent"
  using assms by (auto simp: appends_tx_def dict_get_def split: option.splits)

lemma handlePaymentCaptured_idempotent:
  assumes "handlePaymentCaptured env st (Some p) = Inr st'"
  shows "handlePaymentCaptured env st' (Some p) = Inr st'"
proof -
  let ?uid = "js_string (notes_get p n_userId)"
  let ?tx = "last (txs_of st' ?uid)"
  from handlePaymentCaptured_cases [OF assms] show ?thesis
  proof
    assume "st' = st"
    with assms show ?thesis by simp
  next
    assume a: "truthy (notes_get p n_userId) \<and> users st ?uid \<noteq> None
       \<and> p_id p \<notin> tx_id ` set (txs_of st ?uid)
       \<and> appends_tx st st' ?uid ?tx
       \<and> tx_id ?tx = p_id p
       \<and> status ?tx = Captured
       \<and> amount ?tx = js_div (p_amount p) (Finite 100)"
    then have ap: "appends_tx st st' ?uid ?tx" and i: "tx_id ?tx = p_id p" by simp_all
    from ap have "?tx \<in> set (txs_of st' ?uid)" by (rule appends_tx_member)
    then have "tx_id ?tx \<in> tx_id ` set (txs_of st' ?uid)" by (rule imageI)
    then have "p_id p \<in> tx_id ` set (txs_of st' ?uid)" by (simp only: i)
    with appends_tx_own(1) [OF ap] show ?thesis by (simp add: handlePaymentCaptured_noop)
  qed
qed

lemma api_capture_effect:
  assumes "x_razorpay_signature req = Some (webhook_signature env (webhook_secret env) req)"
    and "event (body req) = Some ''payment.captured''"
    and "payload (body req) = Some pl" and "payment pl = Some w" and "entity w = Some p"
  shows "let uid = js_string (notes_get p n_userId)
         in if \<not> truthy (notes_get p n_userId) \<or> dict_get (users st) uid = Absent
            then api_webhook env st req = (Ok200 True, st)
            else if dict_get (users st) uid = Inherited
            then api_webhook env st req = (Error 500 ''Webhook processing error'', st)
            else if p_id p \<in> tx_id ` set (txs_of st uid)
            then api_webhook env st req = (Ok200 True, st)
            else if time_clip (js_mul (p_created_at p) (Finite 1000)) \<noteq> None
            then fst (api_webhook env st req) = Ok200 True
                 \<and> recorded_as_captured st (snd (api_webhook env st req)) uid p
            else api_webhook env st req = (Error 500 ''Webhook processing error'', st)"
proof -
  let ?uid = "js_string (notes_get p n_userId)"
  let ?found = "dict_get (users st) ?uid"
  have w: "api_webhook env st req =
     (case handlePaymentCaptured env st (Some p) of
        Inl e \<Rightarrow> (Error 500 ''Webhook processing error'', st)
      | Inr st' \<Rightarrow> (Ok200 True, st'))"
    by (simp add: api_webhook_valid [OF assms(1,3)] assms(2) api_dispatch_captured [OF assms(4,5)])
  consider (noop) "\<not> truthy (notes_get p n_userId) \<or> ?found = Absent"
    | (inh) "truthy (notes_get p n_userId)" "?found = Inherited"
    | (dup) "truthy (notes_get p n_userId)" "?found \<noteq> Absent" "?found \<noteq> Inherited"
        "p_id p \<in> tx_id ` set (txs_of st ?uid)"
    | (rec) "truthy (notes_get p n_userId)" "?found \<noteq> Absent" "?found \<noteq> Inherited"
        "p_id p \<notin> tx_id ` set (txs_of st ?uid)"
        "time_clip (js_mul (p_created_at p) (Finite 1000)) \<noteq> None"
    | (bad) "truthy (notes_get p n_userId)" "?found \<noteq> Absent" "?found \<noteq> Inherited"
        "p_id p \<notin> tx_id ` set (txs_of st ?uid)"
        "time_clip (js_mul (p_created_at p) (Finite 1000)) = None"
    by blast
  then show ?thesis
  proof cases
    case noop
    then have "handlePaymentCaptured env st (Some p) = Inr st"
      by (intro handlePaymentCaptured_noop) blast
    with noop show ?thesis by (simp add: w Let_def)
  next
    case inh
    from handlePaymentCaptured_inherited [OF inh, of env] inh show ?thesis
      by (simp add: w Let_def)
  next
    case dup
    then have "handlePaymentCaptured env st (Some p) = Inr st"
      by (intro handlePaymentCaptured_noop) blast
    with dup show ?thesis by (simp add: w Let_def)
  next
    case rec
    from handlePaymentCaptured_records [OF rec, of env] rec show ?thesis
      by (simp add: w Let_def split: sum.splits)
  next
    case bad
    from handlePaymentCaptured_bad_date [OF bad, of env] bad show ?thesis
      by (simp add: w Let_def)
  qed
qed

text \<open>
  The earlier server records for the named user or for \<open>anonymous\<close>, and throws when the
  payment has no notes or the user id is an inherited property name.
\<close>

lemma srv_captured_records:
  assumes "payment pl = Some w" and "entity w = Some p" and "p_notes p = Some n"
    and "dict_get (users st) (or_else (n_userId n) ''anonymous'') \<noteq> Inherited"
  shows "case srv_captured env now st (Some pl) of
           Inl e \<Rightarrow> False
         | Inr st' \<Rightarrow> recorded_as_captured st st' (or_else (n_userId n) ''anonymous'') p"
  using assms
  by (auto simp: srv_captured_def Let_def txs_of_def spent_of_def appends_tx_def
        recorded_as_captured_def srv_new_user_def split: option.splits)

lemma srv_capture_effect:
  assumes "x_razorpay_signature req = Some (webhook_signature env ''your_webhook_secret'' req)"
    and "event (body req) = Some ''payment.captured''"
    and "payload (body req) = Some pl" and "payment pl = Some w" and "entity w = Some p"
    and "p_notes p = Some n"
    and "dict_get (users st) (or_else (n_userId n) ''anonymous'') \<noteq> Inherited"
  shows "fst (srv_webhook env now st req) = Ok200 ''OK''
    \<and> recorded_as_captured st (snd (srv_webhook env now st req))
         (or_else (n_userId n) ''anonymous'') p"
  using srv_captured_records [OF assms(4,5,6,7), where env=env and now=now] assms(1,2,3)
  by (simp add: srv_webhook_def webhook_signature_def split: sum.splits)

lemma srv_capture_throws:
  assumes "x_razorpay_signature req = Some (webhook_signature env ''your_webhook_secret'' req)"
    and "event (body req) = Some ''payment.captured''"
    and "payload (body req) = Some pl" and "payment pl = Some w" and "entity w = Some p"
    and "p_notes p = None
       \<or> (\<exists>n. p_notes p = Some n
             \<and> dict_get (users st) (or_else (n_userId n) ''anonymous'') = Inherited)"
  shows "srv_webhook env now st req = (Error 500 ''Error'', st)"
  using assms
  by (auto simp: srv_webhook_def webhook_signature_def srv_captured_def)

lemma srv_other_events:
  assumes "event (body req) \<noteq> Some ''payment.captured''"
  shows "snd (srv_webhook env now st req) = st"
  using assms
  by (simp add: srv_webhook_def srv_failed_def Let_def split: option.splits)

lemmas webhook_eval = api_webhook_def api_dispatch_def handlePaymentCaptured_def srv_webhook_def
  srv_captured_def srv_new_user_def pure_webhook_def webhook_signature_def request_values js_values
  ledger_of_def tx0_def spent_of_def txs_of_def appends_tx_def recorded_as_captured_def
  double_eval

text \<open>
  Claim C5 says that a signature-valid \<open>payment.captured\<close> event is a no-op only when
  the metadata has no \<open>userId\<close>, and that otherwise the transaction is recorded. In the API
  server the event for the user \<open>ghost\<close>, whom the store does not know, changes nothing;
  in the earlier server the event without a \<open>userId\<close> is recorded for the user
  \<open>anonymous\<close>, with the double next to 123.45 as its amount.
\<close>

theorem webhook_capture_counterexample:
  "x_razorpay_signature (captured_signed (Some ''ghost''))
     = Some (webhook_signature env0 (webhook_secret env0) (captured_signed (Some ''ghost'')))
   \<and> event (body (captured_signed (Some ''ghost''))) = Some ''payment.captured''
   \<and> notes_get (captured_payment (Some ''ghost'')) n_userId = Some ''ghost''
   \<and> api_webhook env0 (ledger_of 500 1000) (captured_signed (Some ''ghost''))
       = (Ok200 True, ledger_of 500 1000)
   \<and> notes_get (captured_payment None) n_userId = None
   \<and> map amount (txs_of (snd (srv_webhook env0 1 (ledger_of 500 1000) (captured_signed None)))
        ''anonymous'') = [to_double (12345 / 100)]"
  by (simp add: webhook_eval)

text \<open>
  Claim C5 as amended, for a signature-valid event and a user id that is not the name of a
  property inherited from \<open>Object.prototype\<close>. In the API server a \<open>payment.captured\<close>
  event is a no-op when the metadata has no \<open>userId\<close> or an empty one, when the store does
  not know the user, or when the user already has a transaction with the id of the payment;
  otherwise, the capture time being a valid date, one transaction with status \<open>captured\<close>,
  the id of the payment and the amount in paise divided by 100 (the quotient of doubles)
  is appended to that user and added to the total, and no other user changes; an invalid
  capture time is answered 500 with no change. In the earlier server, when the payment has
  a notes object, the transaction is recorded for the user the notes name, or for
  \<open>anonymous\<close> when they name none, whether or not the store knows the user; without a
  notes object the request is answered 500 and nothing is recorded. Events of other kinds
  change no store, and the webhook of the pure API server changes none for any event.
  The theorem also says what an inherited name gives: 500 and no change in both servers.
\<close>

theorem webhook_capture_effect:
  "(x_razorpay_signature req = Some (webhook_signature env (webhook_secret env) req)
      \<and> event (body req) = Some ''payment.captured''
      \<and> payload (body req) = Some pl \<and> payment pl = Some w \<and> entity w = Some p \<longrightarrow>
      (let uid = js_string (notes_get p n_userId)
       in if \<not> truthy (notes_get p n_userId) \<or> dict_get (users st) uid = Absent
          then api_webhook env st req = (Ok200 True, st)
          else if dict_get (users st) uid = Inherited
          then api_webhook env st req = (Error 500 ''Webhook processing error'', st)
          else if p_id p \<in> tx_id ` set (txs_of st uid)
          then api_webhook env st req = (Ok200 True, st)
          else if time_clip (js_mul (p_created_at p) (Finite 1000)) \<noteq> None
          then fst (api_webhook env st req) = Ok200 True
               \<and> recorded_as_captured st (snd (api_webhook env st req)) uid p
          else api_webhook env st req = (Error 500 ''Webhook processing error'', st)))
   \<and> (x_razorpay_signature req = Some (webhook_signature env ''your_webhook_secret'' req)
        \<and> event (body req) = Some ''payment.captured''
        \<and> payload (body req) = Some pl \<and> payment pl = Some w \<and> entity w = Some p \<longrightarrow>
        (case p_notes p of
           None \<Rightarrow> srv_webhook env now st req = (Error 500 ''Error'', st)
         | Some n \<Rightarrow>
             if dict_get (users st) (or_else (n_userId n) ''anonymous'') = Inherited
             then srv_webhook env now st req = (Error 500 ''Error'', st)
             else fst (srv_webhook env now st req) = Ok200 ''OK''
                  \<and> recorded_as_captured st (snd (srv_webhook env now st req))
                       (or_else (n_userId n) ''anonymous'') p))
   \<and> (event (body req) \<noteq> Some ''payment.captured'' \<longrightarrow>
        snd (api_webhook env st req) = st \<and> snd (srv_webhook env now st req) = st)
   \<and> snd (pure_webhook env st req) = st"
proof (intro conjI impI)
  assume "x_razorpay_signature req = Some (webhook_signature env (webhook_secret env) req)
      \<and> event (body req) = Some ''payment.captured''
      \<and> payload (body req) = Some pl \<and> payment pl = Some w \<and> entity w = Some p"
  then have "x_razorpay_signature req = Some (webhook_signature env (webhook_secret env) req)"
    and "event (body req) = Some ''payment.captured''"
    and "payload (body req) = Some pl" and "payment pl = Some w" and "entity w = Some p"
    by simp_all
  then show "let uid = js_string (notes_get p n_userId)
       in if \<not> truthy (notes_get p n_userId) \<or> dict_get (users st) uid = Absent
          then api_webhook env st req = (Ok200 True, st)
          else if dict_get (users st) uid = Inherited
          then api_webhook env st req = (Error 500 ''Webhook processing error'', st)
          else if p_id p \<in> tx_id ` set (txs_of st uid)
          then api_webhook env st req = (Ok200 True, st)
          else if time_clip (js_mul (p_created_at p) (Finite 1000)) \<noteq> None
          then fst (api_webhook env st req) = Ok200 True
               \<and> recorded_as_captured st (snd (api_webhook env st req)) uid p
          else api_webhook env st req = (Error 500 ''Webhook processing error'', st)"
    by (rule api_capture_effect)
next
  assume a: "x_razorpay_signature req = Some (webhook_signature env ''your_webhook_secret'' req)
        \<and> event (body req) = Some ''payment.captured''
        \<and> payload (body req) = Some pl \<and> payment pl = Some w \<and> entity w = Some p"
  then have s: "x_razorpay_signature req = Some (webhook_signature env ''your_webhook_secret'' req)"
      "event (body req) = Some ''payment.captured''"
      "payload (body req) = Some pl" "payment pl = Some w" "entity w = Some p"
    by simp_all
  show "case p_notes p of
           None \<Rightarrow> srv_webhook env now st req = (Error 500 ''Error'', st)
         | Some n \<Rightarrow>
             if dict_get (users st) (or_else (n_userId n) ''anonymous'') = Inherited
             then srv_webhook env now st req = (Error 500 ''Error'', st)
             else fst (srv_webhook env now st req) = Ok200 ''OK''
                  \<and> recorded_as_captured st (snd (srv_webhook env now st req))
                       (or_else (n_userId n) ''anonymous'') p"
  proof (cases "p_notes p")
    case None
    with srv_capture_throws [OF s, of st now] show ?thesis by simp
  next
    case (Some n)
    show ?thesis
    proof (cases "dict_get (users st) (or_else (n_userId n) ''anonymous'') = Inherited")
      case True
      with Some srv_capture_throws [OF s, of st now] show ?thesis by simp
    next
      case False
      from srv_capture_effect [OF s Some False, of now] Some False show ?thesis by simp
    qed
  qed
next
  assume "event (body req) \<noteq> Some ''payment.captured''"
  then show "snd (api_webhook env st req) = st" and "snd (srv_webhook env now st req) = st"
    by (rule api_other_events, rule srv_other_events)
next
  show "snd (pure_webhook env st req) = st" by (rule pure_webhook_state)
qed

theorem webhook_capture_effect_witness:
  "x_razorpay_signature (captured_signed (Some ''u1''))
     = Some (webhook_signature env0 (webhook_secret env0) (captured_signed (Some ''u1'')))
   \<and> payload (body (captured_signed (Some ''u1''))) = Some (captured_payload (Some ''u1''))
   \<and> event (body (captured_signed (Some ''u1''))) = Some ''payment.captured''
   \<and> fst (api_webhook env0 (ledger_of 500 1000) (captured_signed (Some ''u1''))) = Ok200 True
   \<and> recorded_as_captured (ledger_of 500 1000)
        (snd (api_webhook env0 (ledger_of 500 1000) (captured_signed (Some ''u1'')))) ''u1''
        (captured_payment (Some ''u1''))
   \<and> map amount (txs_of (snd (api_webhook env0 (ledger_of 500 1000) (captured_signed (Some ''u1''))))
        ''u1'') = [Finite 500, to_double (12345 / 100)]
   \<and> map status (txs_of (snd (api_webhook env0 (ledger_of 500 1000) (captured_signed (Some ''u1''))))
        ''u1'') = [Success, Captured]
   \<and> spent_of (snd (api_webhook env0 (ledger_of 500 1000) (captured_signed (Some ''u1'')))) ''u1''
       = to_double (62345 / 100)
   \<and> fst (srv_webhook env0 1 (ledger_of 500 1000) (captured_signed (Some ''u1''))) = Ok200 ''OK''
   \<and> recorded_as_captured (ledger_of 500 1000)
        (snd (srv_webhook env0 1 (ledger_of 500 1000) (captured_signed (Some ''u1'')))) ''u1''
        (captured_payment (Some ''u1''))"
  using webhook_capture_effect [where req = "captured_signed (Some ''u1'')" and env = env0
      and pl = "captured_payload (Some ''u1'')" and st = "ledger_of 500 1000"
      and w = "\<lparr>entity = Some (captured_payment (Some ''u1''))\<rparr>"
      and p = "captured_payment (Some ''u1'')" and now = 1]
  by (simp add: webhook_eval)

text \<open>
  What the amended claim leaves out: a signed event of the earlier server for a payment
  without notes, and signed events for the user id \<open>constructor\<close>, are answered 500 and
  change no store.
\<close>

lemma webhook_capture_throws:
  "srv_webhook env0 1 (ledger_of 500 1000) captured_without_notes
     = (Error 500 ''Error'', ledger_of 500 1000)"
  "srv_webhook env0 1 (ledger_of 500 1000) (captured_signed (Some ''constructor''))
     = (Error 500 ''Error'', ledger_of 500 1000)"
  "api_webhook env0 (ledger_of 500 1000) (captured_signed (Some ''constructor''))
     = (Error 500 ''Webhook processing error'', ledger_of 500 1000)"
  by (simp_all add: webhook_eval)

section \<open>Budget analysis\<close>

lemma round_near: "\<bar>of_int \<lfloor>y + 1 / 2\<rfloor> - (y::rat)\<bar> \<le> 1 / 2"
proof -
  have "of_int \<lfloor>y + 1 / 2\<rfloor> \<le> y + 1 / 2 \<and> y + 1 / 2 < of_int (\<lfloor>y + 1 / 2\<rfloor> + 1)"
    by (rule floor_correct)
  then have "of_int \<lfloor>y + 1 / 2\<rfloor> \<le> y + 1 / 2" and "y + 1 / 2 < of_int \<lfloor>y + 1 / 2\<rfloor> + 1"
    by (simp_all only: of_int_add of_int_1)
  then show ?thesis by linarith
qed

lemma toFixed2_near: "\<bar>toFixed2 x - x\<bar> \<le> 1 / 200"
proof (cases "x < 0")
  case True
  have "\<bar>of_int \<lfloor>- x * 100 + 1 / 2\<rfloor> - (- x * 100)\<bar> \<le> 1 / 2"
    by (rule round_near)
  then have "\<bar>- (of_int \<lfloor>- x * 100 + 1 / 2\<rfloor> / 100) - x\<bar> \<le> 1 / 200"
    by linarith
  with True show ?thesis by (simp only: toFixed2_def if_True)
next
  case False
  have "\<bar>of_int \<lfloor>x * 100 + 1 / 2\<rfloor> - x * 100\<bar> \<le> 1 / 2"
    by (rule round_near)
  then have "\<bar>of_int \<lfloor>x * 100 + 1 / 2\<rfloor> / 100 - x\<bar> \<le> 1 / 200"
    by linarith
  with False show ?thesis by (simp only: toFixed2_def if_False)
qed

lemma api_percentage:
  "spendingPercentage (api_analysis env now st uid)
     = api_spendingPercentage (spent_of st uid) (limit_of st uid)"
  by (simp add: api_analysis_def Let_def split: prod.splits)

lemma api_status:
  "analysis_status (api_analysis env now st uid)
     = fst (api_assess (api_spendingPercentage (spent_of st uid) (limit_of st uid)))"
  by (simp add: api_analysis_def Let_def split: prod.splits)

lemma srv_percentage:
  "s_spendingPercentage (srv_analysis st uid)
     = Number_toFixed2 (js_mul (js_div (spent_of st uid) (limit_of st uid)) (Finite 100))"
  by (simp add: srv_analysis_def Let_def split: prod.splits)

lemma srv_status:
  "s_status (srv_analysis st uid)
     = fst (srv_assess (Number_toFixed2
         (js_mul (js_div (spent_of st uid) (limit_of st uid)) (Finite 100))))"
  by (simp add: srv_analysis_def Let_def split: prod.splits)

text \<open>The analyzers throw exactly for an inherited property in the place of the user.\<close>

lemma analyzeBudget_result:
  "api_analyzeBudget env now st uid =
     (if dict_get (users st) uid = Inherited then Inl TypeError
      else Inr (api_analysis env now st uid))"
  "srv_analyzeBudget st uid =
     (if dict_get (users st) uid = Inherited then Inl TypeError else Inr (srv_analysis st uid))"
  by (simp_all add: api_analyzeBudget_def srv_analyzeBudget_def split: property.splits)

lemma ledger_of_values:
  "spent_of (ledger_of s l) ''u1'' = Finite s" "limit_of (ledger_of s l) ''u1'' = Finite l"
  "dict_get (users (ledger_of s l)) ''u1'' \<noteq> Inherited"
  by (simp_all add: ledger_of_def spent_of_def limit_of_def dict_get_def)

lemmas eval_index = array_index_def is_digit_def digit_value_def decimal_value_def digits_def

text \<open>
  Claim C6 says that the status follows the thresholds 100, 90, 75 and 50 on
  \<open>P = 100 * spent / limit\<close>. The API server classifies the percentage that \<open>toFixed(2)\<close>
  has rounded to two decimals: 99996 of 100000 is 99.996 percent, below 100, and is
  classified \<open>over_budget\<close>. The earlier server has strict thresholds and other names: 900
  of 1000 is \<open>warning\<close>, 1000 of 1000 is \<open>critical\<close> and 0 is \<open>good\<close>.
\<close>

theorem classification_counterexample:
  "(100 * 99996 / 100000 :: rat) < 100 \<and> (90 :: rat) \<le> 100 * 99996 / 100000
   \<and> spent_of (ledger_of 99996 100000) ''u1'' = Finite 99996
   \<and> limit_of (ledger_of 99996 100000) ''u1'' = Finite 100000
   \<and> api_analyzeBudget env0 1 (ledger_of 99996 100000) ''u1''
       = Inr (api_analysis env0 1 (ledger_of 99996 100000) ''u1'')
   \<and> spendingPercentage (api_analysis env0 1 (ledger_of 99996 100000) ''u1'') = Finite 100
   \<and> analysis_status (api_analysis env0 1 (ledger_of 99996 100000) ''u1'') = ''over_budget''
   \<and> s_status (srv_analysis (ledger_of 900 1000) ''u1'') = ''warning''
   \<and> s_status (srv_analysis (ledger_of 1000 1000) ''u1'') = ''critical''
   \<and> s_status (srv_analysis (ledger_of 0 1000) ''u1'') = ''good''"
  by (simp add: analyzeBudget_result api_percentage api_status srv_status api_assess_def
        srv_assess_def api_spendingPercentage_def ledger_of_values toFixed2_def double_eval)

text \<open>
  Claim C6 as amended: in the API server the status is decided, first match first, by
  \<open>P \<ge> 100\<close> (\<open>over_budget\<close>), \<open>P \<ge> 90\<close> (\<open>critical\<close>), \<open>P \<ge> 75\<close> (\<open>warning\<close>), \<open>P \<ge> 50\<close>
  (\<open>moderate\<close>), otherwise \<open>excellent\<close>, where \<open>P\<close> is the spending percentage the analyzer
  reports: the quotient \<open>(spent / limit) * 100\<close> as the doubles give it, written with two
  decimals by \<open>toFixed(2)\<close>, or 0 when the limit is not greater than 0. With the limit 1000,
  899 spent is \<open>warning\<close>, 900 is \<open>critical\<close>, 1000 is \<open>over_budget\<close> and 0 is \<open>excellent\<close>;
  9999 spent of 20000 is reported as 49.99 and is \<open>excellent\<close>. In the earlier server the
  status is \<open>critical\<close> for \<open>P > 90\<close>, \<open>warning\<close> for \<open>P > 75\<close>, \<open>moderate\<close> for \<open>P > 50\<close> and
  \<open>good\<close> otherwise, with \<open>P\<close> computed in the same way but for every limit.
\<close>

theorem classification_thresholds:
  "analysis_status (api_analysis env now st uid) =
     (let P = spendingPercentage (api_analysis env now st uid)
      in if js_ge P 100 then ''over_budget'' else if js_ge P 90 then ''critical''
         else if js_ge P 75 then ''warning'' else if js_ge P 50 then ''moderate''
         else ''excellent'')
   \<and> spendingPercentage (api_analysis env now st uid) =
       (if js_gt (limit_of st uid) 0
        then Number_toFixed2 (js_mul (js_div (spent_of st uid) (limit_of st uid)) (Finite 100))
        else Finite 0)
   \<and> api_analyzeBudget env now st uid =
       (if dict_get (users st) uid = Inherited then Inl TypeError
        else Inr (api_analysis env now st uid))
   \<and> analysis_status (api_analysis env now (ledger_of 899 1000) ''u1'') = ''warning''
   \<and> analysis_status (api_analysis env now (ledger_of 900 1000) ''u1'') = ''critical''
   \<and> analysis_status (api_analysis env now (ledger_of 1000 1000) ''u1'') = ''over_budget''
   \<and> analysis_status (api_analysis env now (ledger_of 0 1000) ''u1'') = ''excellent''
   \<and> spendingPercentage (api_analysis env now (ledger_of 9999 20000) ''u1'') = Finite (4999 / 100)
   \<and> analysis_status (api_analysis env now (ledger_of 9999 20000) ''u1'') = ''excellent''
   \<and> s_status (srv_analysis st uid) =
     (let P = s_spendingPercentage (srv_analysis st uid)
      in if js_gt P 90 then ''critical'' else if js_gt P 75 then ''warning''
         else if js_gt P 50 then ''moderate'' else ''good'')
   \<and> s_spendingPercentage (srv_analysis st uid) =
       Number_toFixed2 (js_mul (js_div (spent_of st uid) (limit_of st uid)) (Finite 100))
   \<and> srv_analyzeBudget st uid =
       (if dict_get (users st) uid = Inherited then Inl TypeError else Inr (srv_analysis st uid))"
proof (intro conjI)
  show "analysis_status (api_analysis env now st uid) =
     (let P = spendingPercentage (api_analysis env now st uid)
      in if js_ge P 100 then ''over_budget'' else if js_ge P 90 then ''critical''
         else if js_ge P 75 then ''warning'' else if js_ge P 50 then ''moderate''
         else ''excellent'')"
    by (simp add: api_percentage api_status api_assess_def Let_def)
  show "spendingPercentage (api_analysis env now st uid) =
       (if js_gt (limit_of st uid) 0
        then Number_toFixed2 (js_mul (js_div (spent_of st uid) (limit_of st uid)) (Finite 100))
        else Finite 0)"
    by (simp add: api_percentage api_spendingPercentage_def)
  show "api_analyzeBudget env now st uid =
       (if dict_get (users st) uid = Inherited then Inl TypeError
        else Inr (api_analysis env now st uid))"
    by (rule analyzeBudget_result)
  show "analysis_status (api_analysis env now (ledger_of 899 1000) ''u1'') = ''warning''"
    by (simp add: api_status api_assess_def api_spendingPercentage_def ledger_of_values
          toFixed2_def double_eval)
  show "analysis_status (api_analysis env now (ledger_of 900 1000) ''u1'') = ''critical''"
    by (simp add: api_status api_assess_def api_spendingPercentage_def ledger_of_values
          toFixed2_def double_eval)
  show "analysis_status (api_analysis env now (ledger_of 1000 1000) ''u1'') = ''over_budget''"
    by (simp add: api_status api_assess_def api_spendingPercentage_def ledger_of_values
          toFixed2_def double_eval)
  show "analysis_status (api_analysis env now (ledger_of 0 1000) ''u1'') = ''excellent''"
    by (simp add: api_status api_assess_def api_spendingPercentage_def ledger_of_values
          toFixed2_def double_eval)
  show "spendingPercentage (api_analysis env now (ledger_of 9999 20000) ''u1'')
      = Finite (4999 / 100)"
    by (simp add: api_percentage api_spendingPercentage_def ledger_of_values
          toFixed2_def double_eval)
  show "analysis_status (api_analysis env now (ledger_of 9999 20000) ''u1'') = ''excellent''"
    by (simp add: api_status api_assess_def api_spendingPercentage_def ledger_of_values
          toFixed2_def double_eval)
  show "s_status (srv_analysis st uid) =
     (let P = s_spendingPercentage (srv_analysis st uid)
      in if js_gt P 90 then ''critical'' else if js_gt P 75 then ''warning''
         else if js_gt P 50 then ''moderate'' else ''good'')"
    by (simp add: srv_percentage srv_status srv_assess_def Let_def)
  show "s_spendingPercentage (srv_analysis st uid) =
       Number_toFixed2 (js_mul (js_div (spent_of st uid) (limit_of st uid)) (Finite 100))"
    by (rule srv_percentage)
  show "srv_analyzeBudget st uid =
       (if dict_get (users st) uid = Inherited then Inl TypeError else Inr (srv_analysis st uid))"
    by (rule analyzeBudget_result)
qed

text \<open>
  Without a category named \<open>total\<close> every percentage of the breakdown is 0.
\<close>

lemma set_obj_insert: "set (obj_insert k v kvs) = insert (k, v) (set kvs)"
  by (induction kvs) (auto split: option.splits if_splits)

lemma keys_obj_insert: "fst ` set (obj_insert k v kvs) = insert k (fst ` set kvs)"
  by (simp add: set_obj_insert)

lemma keys_obj_set: "fst ` set (obj_set k v kvs) = insert k (fst ` set kvs)"
proof (cases "k \<in> fst ` set kvs")
  case True
  have "fst ` set (map (\<lambda>(k', v'). if k' = k then (k', v) else (k', v')) kvs) = fst ` set kvs"
    by (induction kvs) auto
  with True show ?thesis by (auto simp: obj_set_def)
next
  case False
  then show ?thesis by (simp add: obj_set_def keys_obj_insert)
qed

lemma keys_category_totals:
  "fst ` set (foldl add_category cs txs)
     = fst ` set cs \<union> (\<lambda>t. if category t = [] then ''Other'' else category t) ` set txs"
  by (induction txs arbitrary: cs) (auto simp: add_category_def keys_obj_set Let_def)

lemma no_total_category:
  assumes "''total'' \<notin> (\<lambda>t. if category t = [] then ''Other'' else category t) ` set txs"
  shows "map_of (category_totals txs) ''total'' = None"
  using assms keys_category_totals [of "[]" txs]
  by (simp add: category_totals_def map_of_eq_None_iff)

lemma set_obj_set: "set (obj_set k v kvs) \<subseteq> insert (k, v) (set kvs)"
  by (auto simp: obj_set_def set_obj_insert split: if_splits)

lemma zero_percentages_kept:
  assumes "\<forall>e\<in>set obj. snd (snd e) = Finite 0"
  shows "\<forall>e\<in>set (foldl (\<lambda>obj (k, v). obj_set k (v, Finite 0) obj) obj kvs).
           snd (snd e) = Finite 0"
  using assms
proof (induction kvs arbitrary: obj)
  case Nil
  then show ?case by simp
next
  case (Cons kv kvs)
  obtain k v where kv: "kv = (k, v)" by (cases kv)
  have "\<forall>e\<in>set (obj_set k (v, Finite 0) obj). snd (snd e) = Finite 0"
    using Cons.prems set_obj_set [of k "(v, Finite 0)" obj] by auto
  from Cons.IH [OF this] show ?case by (simp add: kv)
qed

lemma percentages_zero_without_total:
  assumes "''total'' \<notin> (\<lambda>t. if category t = [] then ''Other'' else category t) ` set txs"
  shows "\<forall>e\<in>set (api_getCategoryBreakdown txs). snd (snd e) = Finite 0"
  using zero_percentages_kept [of "[]" "sort_desc (category_totals txs)"]
  by (simp add: api_getCategoryBreakdown_def Let_def no_total_category [OF assms])

text \<open>
  Claim C7 says that the percentages of the category breakdown sum to 100. The API server
  computes a percentage only if \<open>categories.total\<close> is truthy, and \<open>categories\<close> holds the
  sums by category name: for payments of 100 for \<open>Food\<close> and 300 for \<open>Travel\<close> every
  percentage is 0. Only a category that is itself named \<open>total\<close> switches the
  percentages on.
\<close>

theorem category_percentages_are_zero:
  "api_getCategoryBreakdown [tx0 ''pay_1'' ''Food'' 100, tx0 ''pay_2'' ''Travel'' 300]
     = [(''Travel'', Finite 300, Finite 0), (''Food'', Finite 100, Finite 0)]
   \<and> api_getCategoryBreakdown [tx0 ''pay_1'' ''total'' 100, tx0 ''pay_2'' ''Travel'' 300]
     = [(''Travel'', Finite 300, Finite 75), (''total'', Finite 100, Finite 25)]"
  by (simp add: api_getCategoryBreakdown_def category_totals_def add_category_def tx0_def
        sort_desc_def js_sub_def obj_set_def eval_index toFixed2_def double_eval)

text \<open>
  Claim C8 says that the percentage of the analyzer equals \<open>100 * spent / limit\<close> for a
  positive limit. The API server reports it with two decimals: 1 of 3 gives 33.33. It is
  computed in doubles, as \<open>(spent / limit) * 100\<close>, so that it is not always the nearest
  number with two decimals either: 9999 of 20000 is 49.995 percent and gives 49.99.
\<close>

theorem percentage_rounded_counterexample:
  "js_gt (limit_of (ledger_of 1 3) ''u1'') 0
   \<and> spent_of (ledger_of 1 3) ''u1'' = Finite 1 \<and> limit_of (ledger_of 1 3) ''u1'' = Finite 3
   \<and> api_analyzeBudget env0 1 (ledger_of 1 3) ''u1'' = Inr (api_analysis env0 1 (ledger_of 1 3) ''u1'')
   \<and> spendingPercentage (api_analysis env0 1 (ledger_of 1 3) ''u1'') = Finite (3333 / 100)
   \<and> (3333 / 100 :: rat) \<noteq> 100 * 1 / 3
   \<and> spendingPercentage (api_analysis env0 1 (ledger_of 9999 20000) ''u1'') = Finite (4999 / 100)
   \<and> (100 * 9999 / 20000 :: rat) = 49995 / 1000"
  by (simp add: analyzeBudget_result api_percentage api_spendingPercentage_def ledger_of_values
        toFixed2_def double_eval)

text \<open>
  Claim C8 as amended: in the API server the spending percentage is 0 when the limit is
  not greater than 0 (zero, negative or not a number), and no quotient by such a limit is
  formed; when the limit is greater than 0 it is the value of \<open>(spent / limit) * 100\<close> in
  double arithmetic, written with two decimals by \<open>toFixed(2)\<close>, which for a finite value
  below \<open>10^21\<close> is within 0.005 of that value.
\<close>

theorem percentage_guarded:
  "spendingPercentage (api_analysis env now st uid) =
     (if js_gt (limit_of st uid) 0
      then Number_toFixed2 (js_mul (js_div (spent_of st uid) (limit_of st uid)) (Finite 100))
      else Finite 0)
   \<and> (\<not> js_gt (limit_of st uid) 0 \<longrightarrow>
        spendingPercentage (api_analysis env now st uid) = Finite 0)
   \<and> (js_gt (limit_of st uid) 0
        \<and> js_mul (js_div (spent_of st uid) (limit_of st uid)) (Finite 100) = Finite x
        \<and> \<bar>x\<bar> < 1000000000000000000000 \<longrightarrow>
        spendingPercentage (api_analysis env now st uid) = Finite (toFixed2 x)
        \<and> \<bar>toFixed2 x - x\<bar> \<le> 1 / 200)
   \<and> api_analyzeBudget env now st uid =
       (if dict_get (users st) uid = Inherited then Inl TypeError
        else Inr (api_analysis env now st uid))"
  using toFixed2_near [of x]
  by (simp add: api_percentage api_spendingPercentage_def analyzeBudget_result)

theorem percentage_guarded_witness:
  "js_gt (limit_of (ledger_of 1 3) ''u1'') 0
   \<and> js_mul (js_div (spent_of (ledger_of 1 3) ''u1'') (limit_of (ledger_of 1 3) ''u1''))
        (Finite 100) = Finite (2345624805922133 / 70368744177664)
   \<and> spendingPercentage (api_analysis env0 1 (ledger_of 1 3) ''u1'') = Finite (3333 / 100)
   \<and> \<not> js_gt (limit_of (ledger_of 500 (- 5)) ''u1'') 0
   \<and> spendingPercentage (api_analysis env0 1 (ledger_of 500 (- 5)) ''u1'') = Finite 0
   \<and> spendingPercentage (api_analysis env0 1 (ledger_of 500 0) ''u1'') = Finite 0"
  using percentage_guarded [of env0 1 "ledger_of 1 3" "''u1''" "2345624805922133 / 70368744177664"]
    percentage_guarded [of env0 1 "ledger_of 500 (- 5)" "''u1''"]
    percentage_guarded [of env0 1 "ledger_of 500 0" "''u1''"]
  by (simp add: ledger_of_values toFixed2_def double_eval)

text \<open>
  The earlier server forms the quotient whatever the limit is: a limit of -5 with 100 spent
  gives -2000 percent, and a limit of 0 gives no finite number.
\<close>

lemma srv_percentage_unguarded:
  "s_spendingPercentage (srv_analysis (ledger_of 100 (- 5)) ''u1'') = Finite (- 2000)"
  "s_spendingPercentage (srv_analysis (ledger_of 100 0) ''u1'') = PosInfinity"
  by (simp_all add: srv_percentage ledger_of_values toFixed2_def signed_infinity_def double_eval)

section \<open>Creating orders and confirming for unknown users\<close>

lemma ledger_frame_refl: "ledger_frame st st"
  by (simp add: ledger_frame_def split: option.splits)

lemma ledger_frame_new_user:
  assumes "users st uid = None" and "totalSpent u = Finite 0" and "transactions u = []"
    and "users st' = (users st)(uid \<mapsto> u)"
    and "payments st' = payments st" and "analytics st' = analytics st"
  shows "ledger_frame st st'"
  unfolding ledger_frame_def
proof (intro conjI allI)
  fix k
  show "txs_of st' k = txs_of st k" using assms by (simp add: txs_of_def)
  show "spent_of st' k = spent_of st k" using assms by (simp add: spent_of_def)
  show "case users st k of
          None \<Rightarrow> (case users st' k of None \<Rightarrow> True
                    | Some u \<Rightarrow> totalSpent u = Finite 0 \<and> transactions u = [])
        | Some u \<Rightarrow> users st' k = Some u"
    using assms by (cases "k = uid") (simp_all split: option.splits)
qed (use assms in simp_all)

lemma dict_get_Absent: "dict_get obj k = Absent \<Longrightarrow> obj k = None"
  by (simp add: dict_get_def split: option.splits if_splits)

lemma pure_create_order_state:
  "snd (pure_create_order env now st req) = st
   \<or> (users st (js_string (o_userId req)) = None
       \<and> snd (pure_create_order env now st req) =
           st\<lparr>users := (users st)(js_string (o_userId req) \<mapsto>
                  pure_new_user env now (js_string (o_userId req))),
              budgets := (budgets st)(js_string (o_userId req) \<mapsto>
                  \<lparr>monthly = Finite 10000, alerts = Some True,
                   stamp = Some (now_iso env now)\<rparr>)\<rparr>)"
  by (simp add: pure_create_order_def Let_def dict_get_Absent split: option.splits sum.splits)

lemma render_create_order_state:
  "snd (render_create_order env now st req) = st
   \<or> (users st (js_string (o_userId req)) = None
       \<and> snd (render_create_order env now st req) =
           st\<lparr>users := (users st)(js_string (o_userId req) \<mapsto>
                  render_new_user env now (js_string (o_userId req)))\<rparr>)"
  by (simp add: render_create_order_def Let_def dict_get_Absent split: option.splits sum.splits)

lemma pure_create_order_frame: "ledger_frame st (snd (pure_create_order env now st req))"
proof -
  from pure_create_order_state [of env now st req] show ?thesis
  proof
    assume "snd (pure_create_order env now st req) = st"
    then show ?thesis by (simp add: ledger_frame_refl)
  next
    assume a: "users st (js_string (o_userId req)) = None
       \<and> snd (pure_create_order env now st req) =
           st\<lparr>users := (users st)(js_string (o_userId req) \<mapsto>
                  pure_new_user env now (js_string (o_userId req))),
              budgets := (budgets st)(js_string (o_userId req) \<mapsto>
                  \<lparr>monthly = Finite 10000, alerts = Some True,
                   stamp = Some (now_iso env now)\<rparr>)\<rparr>"
    show ?thesis
      by (rule ledger_frame_new_user [of st "js_string (o_userId req)"
            "pure_new_user env now (js_string (o_userId req))"])
         (simp_all add: a pure_new_user_def)
  qed
qed

lemma render_create_order_frame: "ledger_frame st (snd (render_create_order env now st req))"
proof -
  from render_create_order_state [of env now st req] show ?thesis
  proof
    assume "snd (render_create_order env now st req) = st"
    then show ?thesis by (simp add: ledger_frame_refl)
  next
    assume a: "users st (js_string (o_userId req)) = None
       \<and> snd (render_create_order env now st req) =
           st\<lparr>users := (users st)(js_string (o_userId req) \<mapsto>
                  render_new_user env now (js_string (o_userId req)))\<rparr>"
    show ?thesis
      by (rule ledger_frame_new_user [of st "js_string (o_userId req)"
            "render_new_user env now (js_string (o_userId req))"])
         (simp_all add: a render_new_user_def)
  qed
qed

text \<open>
  Claim C9: \<open>create-order\<close> of the pure API server and of the deployment variant, for
  every request, appends no transaction and changes no user's list or total; the payments
  log and the counters stay the same; the only change to the users is a new user with
  total 0 and no transaction (for whom the pure API server also stores the default budget
  of 10000).
\<close>

theorem create_order_frame:
  "ledger_frame st (snd (pure_create_order env now st req))
   \<and> ledger_frame st (snd (render_create_order env now st req))"
proof
  show "ledger_frame st (snd (pure_create_order env now st req))"
    by (rule pure_create_order_frame)
next
  show "ledger_frame st (snd (render_create_order env now st req))"
    by (rule render_create_order_frame)
qed

theorem create_order_frame_witness:
  "ledger_frame budgetData0 (snd (pure_create_order env0 7 budgetData0 order_u1))
   \<and> ledger_frame budgetData0 (snd (render_create_order env0 7 budgetData0 order_u1))
   \<and> users (snd (pure_create_order env0 7 budgetData0 order_u1)) ''u1''
       = Some (pure_new_user env0 7 ''u1'')
   \<and> users (snd (render_create_order env0 7 budgetData0 order_u1)) ''u1''
       = Some (render_new_user env0 7 ''u1'')
   \<and> totalSpent (pure_new_user env0 7 ''u1'') = Finite 0
   \<and> transactions (pure_new_user env0 7 ''u1'') = []"
  using create_order_frame [of budgetData0 env0 7 order_u1]
  by (simp add: pure_create_order_def render_create_order_def pure_new_user_def render_new_user_def
        request_values js_values Let_def)




text \<open>
  For every inherited name that the store does not hold as a user id of its own, the
  answer is 500; the store is never changed by a request for a user it does not hold.
\<close>

lemma render_verify_inherited_user:
  assumes "truthy (razorpay_order_id req)" and "truthy (razorpay_payment_id req)"
    and "truthy (razorpay_signature req)" and "truthy (v_userId req)"
    and "RAZORPAY_KEY_SECRET env = Some secret"
    and "razorpay_signature req = Some (expected_signature env secret req)"
    and "users st (js_string (v_userId req)) = None"
    and "inherited (js_string (v_userId req))"
  shows "render_verify_payment env now st req = (Error 500 ''Payment verification failed'', st)"
  using assms
  by (simp add: render_verify_payment_def createHmac_def expected_signature_def dict_get_def)

lemma render_verify_no_user_no_change:
  assumes "users st (js_string (v_userId req)) = None"
  shows "snd (render_verify_payment env now st req) = st"
  using assms
  by (simp add: render_verify_payment_def dict_get_def Let_def split: sum.splits)


end
